theory Spec2Isabelle
  imports Complex_Main
begin

section \<open>The tables of mahasiswa.db\<close>

text \<open>
  The application (src/index.py) keeps eight SQLite tables, created by \<open>init_db\<close>
  (lines 73-130). A row is a record whose fields carry the alias the queries of the source
  use for the table (\<open>u\<close> users, \<open>m\<close> mahasiswa, \<open>d\<close> dosen, \<open>mk\<close> mata_kuliah,
  \<open>k\<close> kelas, \<open>j\<close> jadwal, \<open>e\<close> enroll, \<open>n\<close> nilai). A table is the list of its rows in
  insertion order. Python integers are \<open>int\<close>.

  A Python float is a finite number, an infinity or NaN (\<open>float('nan')\<close> and
  \<open>float('inf')\<close> are accepted). The program stores and shows a grade, it never computes
  with it, so a finite float is the real number it denotes. The REAL column
  \<open>nilai_angka\<close> holds a float or NULL (\<open>None\<close>): sqlite3 stores NaN as NULL.
\<close>

datatype pyfloat = Finite real | Pos_inf | Neg_inf | Not_a_number

definition sql_real :: "pyfloat \<Rightarrow> pyfloat option" where
  "sql_real v = (if v = Not_a_number then None else Some v)"

record users_row =
  u_id :: int
  u_username :: string
  u_password_hash :: string
  u_role :: string
  u_full_name :: string

record mahasiswa_row =
  m_id :: int
  m_nim :: string
  m_alamat :: string
  m_phone :: string

record dosen_row =
  d_id :: int
  d_nidn :: string

record mata_kuliah_row =
  mk_id :: int
  mk_kode :: string
  mk_nama :: string
  mk_sks :: int

record kelas_row =
  k_id :: int
  k_nama :: string
  k_mata_kuliah_id :: int
  k_dosen_id :: int

record jadwal_row =
  j_id :: int
  j_kelas_id :: int
  j_hari :: string
  j_jam :: string

record enroll_row =
  e_id :: int
  e_mahasiswa_id :: int
  e_kelas_id :: int

record nilai_row =
  n_id :: int
  n_enroll_id :: int
  n_nilai_angka :: "pyfloat option"

text \<open>
  The six tables declared \<open>INTEGER PRIMARY KEY AUTOINCREMENT\<close> have a counter in
  SQLite's \<open>sqlite_sequence\<close> table: the largest id the table ever held. It is the
  \<open>_seq\<close> field beside the table.
\<close>

record database =
  users :: "users_row list"
  users_seq :: int
  mahasiswa :: "mahasiswa_row list"
  dosen :: "dosen_row list"
  mata_kuliah :: "mata_kuliah_row list"
  mata_kuliah_seq :: int
  kelas :: "kelas_row list"
  kelas_seq :: int
  jadwal :: "jadwal_row list"
  jadwal_seq :: int
  enroll :: "enroll_row list"
  enroll_seq :: int
  nilai :: "nilai_row list"
  nilai_seq :: int

text \<open>The database right after the eight \<open>CREATE TABLE\<close> statements: every table empty.\<close>

definition empty_db :: database where
  "empty_db = \<lparr> users = [], users_seq = 0, mahasiswa = [], dosen = [],
     mata_kuliah = [], mata_kuliah_seq = 0, kelas = [], kelas_seq = 0,
     jadwal = [], jadwal_seq = 0, enroll = [], enroll_seq = 0, nilai = [], nilai_seq = 0 \<rparr>"

text \<open>
  The id SQLite gives a row inserted without one into an AUTOINCREMENT table: one more
  than the largest id the table holds or ever held (1 for a table that never had a row).
\<close>

definition autoincrement :: "int \<Rightarrow> int list \<Rightarrow> int" where
  "autoincrement seq ids = max seq (fold max ids 0) + 1"

text \<open>
  An SQLite INTEGER is a signed 64-bit number. sqlite3 refuses to bind a Python int
  outside \<open>-2^63 \<le> i < 2^63\<close> to a \<open>?\<close> of a statement: it raises OverflowError
  before the statement runs, whatever the state of the database.
\<close>

definition sqlite_int :: "int \<Rightarrow> bool" where
  "sqlite_int i = (- 9223372036854775808 \<le> i \<and> i < 9223372036854775808)"

section \<open>Errors, requests, sessions, responses\<close>

text \<open>
  What the program can raise. \<open>IntegrityError\<close> and \<open>DatabaseError\<close> carry the text of
  the sqlite3 exception. An exception no handler catches ends the request with Flask's
  error page (400 for \<open>BadRequestKeyError\<close>, 500 for the others): the response
  \<open>Raised\<close>.
\<close>

datatype error = ValueError | KeyError | TypeError | BadRequestKeyError | OverflowError
  | IntegrityError string | DatabaseError string

text \<open>
  \<open>str(e)\<close> of an exception \<open>execute_db\<close> can raise (the views take it of no other).
\<close>

fun str :: "error \<Rightarrow> string" where
  "str OverflowError = ''Python int too large to convert to SQLite INTEGER''"
| "str (IntegrityError msg) = msg"
| "str (DatabaseError msg) = msg"
| "str _ = []"

datatype http_method = GET | POST

record request =
  req_method :: http_method
  form :: "string \<rightharpoonup> string"

text \<open>
  Flask's session is a dictionary the program only ever gives the keys \<open>user_id\<close>,
  \<open>role\<close> and \<open>full_name\<close> (login, lines 280-282): a record of three optional
  fields, \<open>None\<close> for an absent key.
\<close>

record session_t =
  user_id :: "int option"
  role :: "string option"
  full_name :: "string option"

datatype endpoint = Ep_login | Ep_index | Ep_manage_mahasiswa | Ep_dosen_dashboard
  | Ep_view_kelas int | Ep_dosen_view_kelas int

datatype page = Login_page | Set_nilai_page

datatype response = Redirect endpoint | Render page | Raised error

text \<open>
  The state a request runs in and leaves behind: the committed content of the database
  file, the session, and the messages flashed so far (oldest first).
\<close>

record state =
  db :: database
  session :: session_t
  flashes :: "string list"

definition flash :: "string \<Rightarrow> state \<Rightarrow> state" where
  "flash msg st = st\<lparr>flashes := flashes st @ [msg]\<rparr>"

section \<open>The role guard (login_required, lines 170-181)\<close>

text \<open>
  \<open>login_required(role)\<close> wraps a view \<open>f\<close>. \<open>rl\<close> is the decorator's argument
  (\<open>None\<close> by default); Python's \<open>if role and ...\<close> is false for \<open>None\<close> and for the
  empty string, and \<open>session.get('role')\<close> is \<open>None\<close> for an absent key.
\<close>

definition login_required ::
  "string option \<Rightarrow> (state \<Rightarrow> state \<times> response) \<Rightarrow> state \<Rightarrow> state \<times> response" where
  "login_required rl f st =
     (if user_id (session st) = None then (st, Redirect Ep_login)
      else case rl of
        None \<Rightarrow> f st
      | Some r \<Rightarrow>
          if r \<noteq> [] \<and> role (session st) \<noteq> Some r then
            (flash (''Akses ditolak: hak akses diperlukan: '' @ r) st, Redirect Ep_index)
          else f st)"

section \<open>SQL statements and execute_db (lines 50-61)\<close>

text \<open>
  \<open>query_db(..., one=True)\<close> returns \<open>rv[0] if rv else None\<close>: the first row of the
  result, or \<open>None\<close>.
\<close>

definition query_db_one :: "'a list \<Rightarrow> 'a option" where
  "query_db_one rv = (case rv of [] \<Rightarrow> None | r # _ \<Rightarrow> Some r)"

text \<open>
  The INSERT statements. Binding an int outside the 64-bit range raises OverflowError.
  An AUTOINCREMENT table gives the new row its id and remembers it; the second component
  is the cursor's \<open>lastrowid\<close>. The program never issues \<open>PRAGMA foreign_keys = ON\<close>,
  so SQLite does not check the FOREIGN KEY clauses of the schema: an insert succeeds
  whatever the ids it refers to. \<open>users.username\<close> is UNIQUE, and \<open>mahasiswa.id\<close> and
  \<open>dosen.id\<close> are primary keys the program supplies: a second row with the same value
  raises.
\<close>

definition insert_users ::
  "string \<Rightarrow> string \<Rightarrow> string \<Rightarrow> string \<Rightarrow> database \<Rightarrow> error + database \<times> int" where
  "insert_users username password_hash rl name d =
     (if username \<in> set (map u_username (users d)) then
        Inl (IntegrityError ''UNIQUE constraint failed: users.username'')
      else let i = autoincrement (users_seq d) (map u_id (users d)) in
        Inr (d\<lparr>users := users d @ [\<lparr>u_id = i, u_username = username,
               u_password_hash = password_hash, u_role = rl, u_full_name = name\<rparr>],
             users_seq := i\<rparr>, i))"

definition insert_mahasiswa ::
  "int \<Rightarrow> string \<Rightarrow> string \<Rightarrow> string \<Rightarrow> database \<Rightarrow> error + database" where
  "insert_mahasiswa i nim alamat phone d =
     (if \<not> sqlite_int i then Inl OverflowError
      else if i \<in> set (map m_id (mahasiswa d)) then
        Inl (IntegrityError ''UNIQUE constraint failed: mahasiswa.id'')
      else Inr (d\<lparr>mahasiswa := mahasiswa d @
             [\<lparr>m_id = i, m_nim = nim, m_alamat = alamat, m_phone = phone\<rparr>]\<rparr>))"

definition insert_dosen :: "int \<Rightarrow> string \<Rightarrow> database \<Rightarrow> error + database" where
  "insert_dosen i nidn d =
     (if \<not> sqlite_int i then Inl OverflowError
      else if i \<in> set (map d_id (dosen d)) then
        Inl (IntegrityError ''UNIQUE constraint failed: dosen.id'')
      else Inr (d\<lparr>dosen := dosen d @ [\<lparr>d_id = i, d_nidn = nidn\<rparr>]\<rparr>))"

definition insert_mata_kuliah ::
  "string \<Rightarrow> string \<Rightarrow> int \<Rightarrow> database \<Rightarrow> error + database \<times> int" where
  "insert_mata_kuliah kode nama sks d =
     (if \<not> sqlite_int sks then Inl OverflowError
      else let i = autoincrement (mata_kuliah_seq d) (map mk_id (mata_kuliah d)) in
        Inr (d\<lparr>mata_kuliah := mata_kuliah d @
               [\<lparr>mk_id = i, mk_kode = kode, mk_nama = nama, mk_sks = sks\<rparr>],
             mata_kuliah_seq := i\<rparr>, i))"

definition insert_kelas :: "string \<Rightarrow> int \<Rightarrow> int \<Rightarrow> database \<Rightarrow> error + database \<times> int" where
  "insert_kelas nama mata_kuliah_id dosen_id d =
     (if \<not> (sqlite_int mata_kuliah_id \<and> sqlite_int dosen_id) then Inl OverflowError
      else let i = autoincrement (kelas_seq d) (map k_id (kelas d)) in
        Inr (d\<lparr>kelas := kelas d @ [\<lparr>k_id = i, k_nama = nama,
               k_mata_kuliah_id = mata_kuliah_id, k_dosen_id = dosen_id\<rparr>],
             kelas_seq := i\<rparr>, i))"

definition insert_jadwal :: "int \<Rightarrow> string \<Rightarrow> string \<Rightarrow> database \<Rightarrow> error + database \<times> int" where
  "insert_jadwal kelas_id hari jam d =
     (if \<not> sqlite_int kelas_id then Inl OverflowError
      else let i = autoincrement (jadwal_seq d) (map j_id (jadwal d)) in
        Inr (d\<lparr>jadwal := jadwal d @
               [\<lparr>j_id = i, j_kelas_id = kelas_id, j_hari = hari, j_jam = jam\<rparr>],
             jadwal_seq := i\<rparr>, i))"

definition insert_enroll :: "int \<Rightarrow> int \<Rightarrow> database \<Rightarrow> error + database \<times> int" where
  "insert_enroll mahasiswa_id kelas_id d =
     (if \<not> (sqlite_int mahasiswa_id \<and> sqlite_int kelas_id) then Inl OverflowError
      else let i = autoincrement (enroll_seq d) (map e_id (enroll d)) in
        Inr (d\<lparr>enroll := enroll d @
               [\<lparr>e_id = i, e_mahasiswa_id = mahasiswa_id, e_kelas_id = kelas_id\<rparr>],
             enroll_seq := i\<rparr>, i))"

definition insert_nilai :: "int \<Rightarrow> pyfloat \<Rightarrow> database \<Rightarrow> error + database \<times> int" where
  "insert_nilai enroll_id nilai_angka d =
     (if \<not> sqlite_int enroll_id then Inl OverflowError
      else let i = autoincrement (nilai_seq d) (map n_id (nilai d)) in
        Inr (d\<lparr>nilai := nilai d @
               [\<lparr>n_id = i, n_enroll_id = enroll_id, n_nilai_angka = sql_real nilai_angka\<rparr>],
             nilai_seq := i\<rparr>, i))"

text \<open>
  The statements the views below send through \<open>execute_db\<close>, each with its bound
  arguments in the order of the source's tuple:
  \<^item> \<open>DELETE FROM nilai WHERE enroll_id IN (SELECT id FROM enroll WHERE mahasiswa_id=?)\<close>
  \<^item> \<open>DELETE FROM enroll WHERE mahasiswa_id=?\<close>
  \<^item> \<open>DELETE FROM mahasiswa WHERE id=?\<close>
  \<^item> \<open>DELETE FROM users WHERE id=?\<close>
  \<^item> \<open>DELETE FROM nilai WHERE enroll_id=?\<close>
  \<^item> \<open>DELETE FROM enroll WHERE id=?\<close>
  \<^item> \<open>INSERT INTO enroll (mahasiswa_id, kelas_id) VALUES (?,?)\<close>
  \<^item> \<open>UPDATE nilai SET nilai_angka=? WHERE enroll_id=?\<close>
  \<^item> \<open>INSERT INTO nilai (enroll_id, nilai_angka) VALUES (?,?)\<close>
\<close>

datatype stmt =
    Delete_nilai_of_mahasiswa int
  | Delete_enroll_of_mahasiswa int
  | Delete_mahasiswa int
  | Delete_users int
  | Delete_nilai_of_enroll int
  | Delete_enroll int
  | Insert_enroll int int
  | Update_nilai pyfloat int
  | Insert_nilai int pyfloat

text \<open>
  What \<open>db.execute(query, args)\<close> does with a statement when the engine runs it: the
  binding of the arguments comes first and raises OverflowError for an id outside the
  64-bit range; otherwise the statement changes the tables.
\<close>

fun exec :: "stmt \<Rightarrow> database \<Rightarrow> error + database" where
  "exec (Delete_nilai_of_mahasiswa mhs_id) d =
     (if \<not> sqlite_int mhs_id then Inl OverflowError
      else Inr (d\<lparr>nilai := filter (\<lambda>n. n_enroll_id n \<notin>
            set (map e_id (filter (\<lambda>e. e_mahasiswa_id e = mhs_id) (enroll d)))) (nilai d)\<rparr>))"
| "exec (Delete_enroll_of_mahasiswa mhs_id) d =
     (if \<not> sqlite_int mhs_id then Inl OverflowError
      else Inr (d\<lparr>enroll := filter (\<lambda>e. e_mahasiswa_id e \<noteq> mhs_id) (enroll d)\<rparr>))"
| "exec (Delete_mahasiswa mhs_id) d =
     (if \<not> sqlite_int mhs_id then Inl OverflowError
      else Inr (d\<lparr>mahasiswa := filter (\<lambda>m. m_id m \<noteq> mhs_id) (mahasiswa d)\<rparr>))"
| "exec (Delete_users i) d =
     (if \<not> sqlite_int i then Inl OverflowError
      else Inr (d\<lparr>users := filter (\<lambda>u. u_id u \<noteq> i) (users d)\<rparr>))"
| "exec (Delete_nilai_of_enroll enroll_id) d =
     (if \<not> sqlite_int enroll_id then Inl OverflowError
      else Inr (d\<lparr>nilai := filter (\<lambda>n. n_enroll_id n \<noteq> enroll_id) (nilai d)\<rparr>))"
| "exec (Delete_enroll enroll_id) d =
     (if \<not> sqlite_int enroll_id then Inl OverflowError
      else Inr (d\<lparr>enroll := filter (\<lambda>e. e_id e \<noteq> enroll_id) (enroll d)\<rparr>))"
| "exec (Insert_enroll mahasiswa_id kelas_id) d =
     (case insert_enroll mahasiswa_id kelas_id d of Inl x \<Rightarrow> Inl x | Inr (d', _) \<Rightarrow> Inr d')"
| "exec (Update_nilai v enroll_id) d =
     (if \<not> sqlite_int enroll_id then Inl OverflowError
      else Inr (d\<lparr>nilai := map (\<lambda>n. if n_enroll_id n = enroll_id
                                      then n\<lparr>n_nilai_angka := sql_real v\<rparr> else n)
                             (nilai d)\<rparr>))"
| "exec (Insert_nilai enroll_id v) d =
     (case insert_nilai enroll_id v d of Inl x \<Rightarrow> Inl x | Inr (d', _) \<Rightarrow> Inr d')"

text \<open>
  The storage engine is outside the program: once the arguments are bound,
  \<open>db.execute\<close> can still raise for reasons the statement and the rows do not decide
  (a locked database, a full disk, an AUTOINCREMENT table that has used its largest id:
  "database or disk is full"). An \<open>engine\<close> says, for a statement and the database it
  meets, whether \<open>db.execute\<close> raises so and with which message. A statement that raises
  changes nothing. The SELECTs of \<open>query_db\<close> and the statements of \<open>init_db\<close>'s own
  cursor are taken to meet no such fault; their binding is modelled.

  \<open>execute_db\<close> (lines 57-61) executes one statement and commits at once: the database
  it returns is the committed one, and no later failure of the request takes it back
  (the program never calls rollback). Its return value \<open>lastrowid\<close> is not used by
  the views modelled here.
\<close>

type_synonym engine = "stmt \<Rightarrow> database \<Rightarrow> string option"

definition no_fault :: engine where
  "no_fault q d = None"

definition fails_on :: "stmt \<Rightarrow> string \<Rightarrow> engine" where
  "fails_on q0 msg q d = (if q = q0 then Some msg else None)"

definition execute_db :: "engine \<Rightarrow> stmt \<Rightarrow> database \<Rightarrow> error + database" where
  "execute_db eng q d =
     (case exec q d of
        Inl x \<Rightarrow> Inl x
      | Inr d' \<Rightarrow> (case eng q d of Some msg \<Rightarrow> Inl (DatabaseError msg) | None \<Rightarrow> Inr d'))"

section \<open>Bootstrap seeding (init_db, lines 67-164)\<close>

text \<open>
  The database file either does not exist (\<open>None\<close>) or holds a database. \<open>init_db\<close>
  returns at once when the file exists; otherwise it creates the tables, inserts the seed
  rows through one cursor and commits once at the end. \<open>generate_password_hash\<close> is
  werkzeug's, a parameter here. \<open>fetchone()[0]\<close> on an empty result is a TypeError.
  The statements run one after the other; the first that raises ends \<open>init_db\<close>
  (\<open>and_then\<close>).
\<close>

definition select_user_id :: "string \<Rightarrow> database \<Rightarrow> int option" where
  "select_user_id username d =
     map_option u_id (query_db_one (filter (\<lambda>u. u_username u = username) (users d)))"

definition and_then :: "error + 'a \<Rightarrow> ('a \<Rightarrow> error + 'b) \<Rightarrow> error + 'b" where
  "and_then r f = (case r of Inl x \<Rightarrow> Inl x | Inr a \<Rightarrow> f a)"

definition fetchone_0 :: "int option \<Rightarrow> error + int" where
  "fetchone_0 r = (case r of None \<Rightarrow> Inl TypeError | Some i \<Rightarrow> Inr i)"

definition init_db :: "(string \<Rightarrow> string) \<Rightarrow> database option \<Rightarrow> error + database option" where
  "init_db generate_password_hash file =
     (case file of
        Some d \<Rightarrow> Inr (Some d)
      | None \<Rightarrow>
         (let admin_pw = generate_password_hash ''admin123'';
              dosen_pw = generate_password_hash ''dosen123'';
              mhs_pw = generate_password_hash ''mahasiswa123''
          in
          and_then (insert_users ''admin'' admin_pw ''admin'' ''Administrator'' empty_db)
            (\<lambda>(c1, _).
          and_then (insert_users ''dosen1'' dosen_pw ''dosen'' ''Dr. Dosen Satu'' c1)
            (\<lambda>(c2, _).
          and_then (insert_users ''mahasiswa1'' mhs_pw ''mahasiswa'' ''Budi Mahasiswa'' c2)
            (\<lambda>(c3, _).
          and_then (fetchone_0 (select_user_id ''admin'' c3))
            (\<lambda>admin_id.
          and_then (fetchone_0 (select_user_id ''dosen1'' c3))
            (\<lambda>dosen_id.
          and_then (fetchone_0 (select_user_id ''mahasiswa1'' c3))
            (\<lambda>mhs_id.
          and_then (insert_dosen dosen_id ''NIDN12345'' c3)
            (\<lambda>c4.
          and_then (insert_mahasiswa mhs_id ''20231001'' ''Jl. Merdeka 1'' ''081234567890'' c4)
            (\<lambda>c5.
          and_then (insert_mata_kuliah ''JARKOM101'' ''Jaringan Komputer'' 3 c5)
            (\<lambda>(c6, mk_idv).
          and_then (insert_kelas ''Jarkom - Pagi'' mk_idv dosen_id c6)
            (\<lambda>(c7, kelas_id).
          and_then (insert_jadwal kelas_id ''Senin'' ''08:00-10:00'' c7)
            (\<lambda>(c8, _).
          and_then (insert_enroll mhs_id kelas_id c8)
            (\<lambda>(c9, enroll_id).
          and_then (insert_nilai enroll_id (Finite 85) c9)
            (\<lambda>(c10, _). Inr (Some c10))))))))))))))))"

section \<open>Login (lines 273-309)\<close>

text \<open>
  \<open>check_password_hash\<close> is werkzeug's, a parameter. \<open>request.form[key]\<close> on a missing
  key raises BadRequestKeyError.
\<close>

definition login :: "(string \<Rightarrow> string \<Rightarrow> bool) \<Rightarrow> request \<Rightarrow> state \<Rightarrow> state \<times> response" where
  "login check_password_hash req st =
     (if req_method req = POST then
        (case form req ''username'' of
           None \<Rightarrow> (st, Raised BadRequestKeyError)
         | Some username \<Rightarrow>
        (case form req ''password'' of
           None \<Rightarrow> (st, Raised BadRequestKeyError)
         | Some password \<Rightarrow>
        (let user = query_db_one (filter (\<lambda>u. u_username u = username) (users (db st)));
             failed = (flash ''Login gagal: username atau password salah'' st, Render Login_page)
         in case user of
              None \<Rightarrow> failed
            | Some u \<Rightarrow>
                if check_password_hash (u_password_hash u) password then
                  (flash ''Login berhasil''
                     (st\<lparr>session := \<lparr>user_id = Some (u_id u), role = Some (u_role u),
                                      full_name = Some (u_full_name u)\<rparr>\<rparr>),
                   Redirect Ep_index)
                else failed)))
      else (st, Render Login_page))"

section \<open>The guarded views\<close>

text \<open>
  Each view is modelled twice: its body (\<open>_body\<close>), and the route the decorator
  \<open>@login_required(role=...)\<close> makes of it, under the source's name.
\<close>

text \<open>
  delete_mahasiswa (lines 446-457): four statements in one \<open>try\<close>; \<open>except Exception\<close>
  catches whatever \<open>execute_db\<close> raises, the OverflowError included.
\<close>

definition delete_mahasiswa_body :: "engine \<Rightarrow> int \<Rightarrow> state \<Rightarrow> state \<times> response" where
  "delete_mahasiswa_body eng mhs_id st =
     (let failed = (\<lambda>d x. (flash (''Gagal hapus: '' @ str x) (st\<lparr>db := d\<rparr>),
                            Redirect Ep_manage_mahasiswa))
      in
      case execute_db eng (Delete_nilai_of_mahasiswa mhs_id) (db st) of
        Inl x \<Rightarrow> failed (db st) x
      | Inr d1 \<Rightarrow>
      case execute_db eng (Delete_enroll_of_mahasiswa mhs_id) d1 of
        Inl x \<Rightarrow> failed d1 x
      | Inr d2 \<Rightarrow>
      case execute_db eng (Delete_mahasiswa mhs_id) d2 of
        Inl x \<Rightarrow> failed d2 x
      | Inr d3 \<Rightarrow>
      case execute_db eng (Delete_users mhs_id) d3 of
        Inl x \<Rightarrow> failed d3 x
      | Inr d4 \<Rightarrow> (flash ''Mahasiswa dihapus'' (st\<lparr>db := d4\<rparr>), Redirect Ep_manage_mahasiswa))"

definition delete_mahasiswa :: "engine \<Rightarrow> int \<Rightarrow> state \<Rightarrow> state \<times> response" where
  "delete_mahasiswa eng mhs_id = login_required (Some ''admin'') (delete_mahasiswa_body eng mhs_id)"

text \<open>
  enroll_mahasiswa (lines 627-633). \<open>int\<close> is Python's, a parameter (\<open>None\<close> where it
  raises ValueError).
\<close>

definition enroll_mahasiswa_body ::
  "(string \<Rightarrow> int option) \<Rightarrow> engine \<Rightarrow> request \<Rightarrow> int \<Rightarrow> state \<Rightarrow> state \<times> response" where
  "enroll_mahasiswa_body py_int eng req kelas_id st =
     (case form req ''mahasiswa_id'' of
        None \<Rightarrow> (st, Raised BadRequestKeyError)
      | Some s \<Rightarrow>
     (case py_int s of
        None \<Rightarrow> (st, Raised ValueError)
      | Some mahasiswa_id \<Rightarrow>
     (case execute_db eng (Insert_enroll mahasiswa_id kelas_id) (db st) of
        Inl x \<Rightarrow> (st, Raised x)
      | Inr d \<Rightarrow> (flash ''Mahasiswa di-enroll ke kelas'' (st\<lparr>db := d\<rparr>),
                  Redirect (Ep_view_kelas kelas_id)))))"

definition enroll_mahasiswa ::
  "(string \<Rightarrow> int option) \<Rightarrow> engine \<Rightarrow> request \<Rightarrow> int \<Rightarrow> state \<Rightarrow> state \<times> response" where
  "enroll_mahasiswa py_int eng req kelas_id =
     login_required (Some ''admin'') (enroll_mahasiswa_body py_int eng req kelas_id)"

text \<open>unenroll (lines 635-641): two statements, no \<open>try\<close>.\<close>

definition unenroll_body :: "engine \<Rightarrow> int \<Rightarrow> int \<Rightarrow> state \<Rightarrow> state \<times> response" where
  "unenroll_body eng kelas_id enroll_id st =
     (case execute_db eng (Delete_nilai_of_enroll enroll_id) (db st) of
        Inl x \<Rightarrow> (st, Raised x)
      | Inr d1 \<Rightarrow>
     (case execute_db eng (Delete_enroll enroll_id) d1 of
        Inl x \<Rightarrow> (st\<lparr>db := d1\<rparr>, Raised x)
      | Inr d2 \<Rightarrow> (flash ''Mahasiswa dikeluarkan dari kelas'' (st\<lparr>db := d2\<rparr>),
                   Redirect (Ep_view_kelas kelas_id))))"

definition unenroll :: "engine \<Rightarrow> int \<Rightarrow> int \<Rightarrow> state \<Rightarrow> state \<times> response" where
  "unenroll eng kelas_id enroll_id =
     login_required (Some ''admin'') (unenroll_body eng kelas_id enroll_id)"

text \<open>
  dosen_set_nilai (lines 707-733). The first query binds \<open>enroll_id\<close> (OverflowError
  outside the 64-bit range, which nothing catches) and joins enroll with kelas.
  \<open>float\<close> is Python's, a parameter (\<open>None\<close> where it raises ValueError; NaN and the
  infinities are values it returns). \<open>session['user_id']\<close> is read only when the joined
  row exists.
\<close>

definition dosen_set_nilai_body ::
  "(string \<Rightarrow> pyfloat option) \<Rightarrow> engine \<Rightarrow> request \<Rightarrow> int \<Rightarrow> state \<Rightarrow> state \<times> response" where
  "dosen_set_nilai_body py_float eng req enroll_id st =
     (let denied = (flash ''Akses ditolak'' st, Redirect Ep_dosen_dashboard) in
      if \<not> sqlite_int enroll_id then (st, Raised OverflowError)
      else
      case query_db_one [(e, k). e \<leftarrow> enroll (db st), k \<leftarrow> kelas (db st),
                           e_kelas_id e = k_id k, e_id e = enroll_id] of
        None \<Rightarrow> denied
      | Some (e, k) \<Rightarrow>
     (case user_id (session st) of
        None \<Rightarrow> (st, Raised KeyError)
      | Some uid \<Rightarrow>
          if k_dosen_id k \<noteq> uid then denied
          else if req_method req = POST then
            (case form req ''nilai'' of
               None \<Rightarrow> (st, Raised BadRequestKeyError)
             | Some s \<Rightarrow>
            (case py_float s of
               None \<Rightarrow> (st, Raised ValueError)
             | Some v \<Rightarrow>
            (let existing = query_db_one (filter (\<lambda>n. n_enroll_id n = enroll_id) (nilai (db st)));
                 q = (case existing of Some _ \<Rightarrow> Update_nilai v enroll_id
                                     | None \<Rightarrow> Insert_nilai enroll_id v)
             in case execute_db eng q (db st) of
                  Inl x \<Rightarrow> (st, Raised x)
                | Inr d \<Rightarrow> (flash ''Nilai tersimpan'' (st\<lparr>db := d\<rparr>),
                            Redirect (Ep_dosen_view_kelas (e_kelas_id e))))))
          else (st, Render Set_nilai_page)))"

definition dosen_set_nilai ::
  "(string \<Rightarrow> pyfloat option) \<Rightarrow> engine \<Rightarrow> request \<Rightarrow> int \<Rightarrow> state \<Rightarrow> state \<times> response" where
  "dosen_set_nilai py_float eng req enroll_id =
     login_required (Some ''dosen'') (dosen_set_nilai_body py_float eng req enroll_id)"

section \<open>Notions the properties are stated with\<close>

text \<open>
  SQLite keeps the \<open>id\<close> column of every table an INTEGER PRIMARY KEY: the ids of the
  rows it stores are 64-bit integers, and no two rows of a table share one.
\<close>

definition primary_keys :: "database \<Rightarrow> bool" where
  "primary_keys d =
     (distinct (map u_id (users d)) \<and> distinct (map m_id (mahasiswa d)) \<and>
      distinct (map d_id (dosen d)) \<and> distinct (map mk_id (mata_kuliah d)) \<and>
      distinct (map k_id (kelas d)) \<and> distinct (map j_id (jadwal d)) \<and>
      distinct (map e_id (enroll d)) \<and> distinct (map n_id (nilai d)) \<and>
      list_all sqlite_int (map u_id (users d)) \<and> list_all sqlite_int (map m_id (mahasiswa d)) \<and>
      list_all sqlite_int (map d_id (dosen d)) \<and>
      list_all sqlite_int (map mk_id (mata_kuliah d)) \<and>
      list_all sqlite_int (map k_id (kelas d)) \<and> list_all sqlite_int (map j_id (jadwal d)) \<and>
      list_all sqlite_int (map e_id (enroll d)) \<and> list_all sqlite_int (map n_id (nilai d)))"

text \<open>
  The enrollment \<open>enroll_id\<close> exists and the class section it belongs to is taught by
  the instructor \<open>uid\<close>.
\<close>

definition teaches :: "database \<Rightarrow> int \<Rightarrow> int \<Rightarrow> bool" where
  "teaches d uid enroll_id =
     (\<exists>e \<in> set (enroll d). \<exists>k \<in> set (kelas d).
        e_id e = enroll_id \<and> k_id k = e_kelas_id e \<and> k_dosen_id k = uid)"

text \<open>The Grade rows of an enrollment, and the scores they hold (\<open>None\<close> is NULL).\<close>

definition grade_rows :: "database \<Rightarrow> int \<Rightarrow> nilai_row list" where
  "grade_rows d enroll_id = filter (\<lambda>n. n_enroll_id n = enroll_id) (nilai d)"

definition grades_of :: "database \<Rightarrow> int \<Rightarrow> pyfloat option list" where
  "grades_of d enroll_id = map n_nilai_angka (grade_rows d enroll_id)"

text \<open>The enrollments of a student, by id.\<close>

definition enrollments_of :: "database \<Rightarrow> int \<Rightarrow> int list" where
  "enrollments_of d mhs_id = map e_id (filter (\<lambda>e. e_mahasiswa_id e = mhs_id) (enroll d))"

text \<open>Running requests one after the other, each in the state the one before left.\<close>

fun run :: "(state \<Rightarrow> state \<times> response) list \<Rightarrow> state \<Rightarrow> state" where
  "run [] st = st"
| "run (h # hs) st = run hs (fst (h st))"

section \<open>Example data\<close>

text \<open>
  A database the application reaches from the seed: a second instructor and a second
  student were added, a second class section was created for the new instructor, and
  three enrollments and two grades exist.
\<close>

definition demo_db :: database where
  "demo_db = \<lparr>
     users = [
       \<lparr>u_id = 1, u_username = ''admin'', u_password_hash = ''#admin123'', u_role = ''admin'',
        u_full_name = ''Administrator''\<rparr>,
       \<lparr>u_id = 2, u_username = ''dosen1'', u_password_hash = ''#dosen123'', u_role = ''dosen'',
        u_full_name = ''Dr. Dosen Satu''\<rparr>,
       \<lparr>u_id = 3, u_username = ''mahasiswa1'', u_password_hash = ''#mahasiswa123'',
        u_role = ''mahasiswa'', u_full_name = ''Budi Mahasiswa''\<rparr>,
       \<lparr>u_id = 4, u_username = ''dosen2'', u_password_hash = ''#dosen456'', u_role = ''dosen'',
        u_full_name = ''Dr. Dosen Dua''\<rparr>,
       \<lparr>u_id = 5, u_username = ''mahasiswa2'', u_password_hash = ''#mahasiswa456'',
        u_role = ''mahasiswa'', u_full_name = ''Siti Mahasiswa''\<rparr>],
     users_seq = 5,
     mahasiswa = [
       \<lparr>m_id = 3, m_nim = ''20231001'', m_alamat = ''Jl. Merdeka 1'', m_phone = ''081234567890''\<rparr>,
       \<lparr>m_id = 5, m_nim = ''20231002'', m_alamat = ''Jl. Merdeka 2'', m_phone = ''081234567891''\<rparr>],
     dosen = [\<lparr>d_id = 2, d_nidn = ''NIDN12345''\<rparr>, \<lparr>d_id = 4, d_nidn = ''NIDN67890''\<rparr>],
     mata_kuliah = [
       \<lparr>mk_id = 1, mk_kode = ''JARKOM101'', mk_nama = ''Jaringan Komputer'', mk_sks = 3\<rparr>],
     mata_kuliah_seq = 1,
     kelas = [
       \<lparr>k_id = 1, k_nama = ''Jarkom - Pagi'', k_mata_kuliah_id = 1, k_dosen_id = 2\<rparr>,
       \<lparr>k_id = 2, k_nama = ''Jarkom - Sore'', k_mata_kuliah_id = 1, k_dosen_id = 4\<rparr>],
     kelas_seq = 2,
     jadwal = [\<lparr>j_id = 1, j_kelas_id = 1, j_hari = ''Senin'', j_jam = ''08:00-10:00''\<rparr>],
     jadwal_seq = 1,
     enroll = [
       \<lparr>e_id = 1, e_mahasiswa_id = 3, e_kelas_id = 1\<rparr>,
       \<lparr>e_id = 2, e_mahasiswa_id = 5, e_kelas_id = 1\<rparr>,
       \<lparr>e_id = 3, e_mahasiswa_id = 3, e_kelas_id = 2\<rparr>],
     enroll_seq = 3,
     nilai = [
       \<lparr>n_id = 1, n_enroll_id = 1, n_nilai_angka = Some (Finite 85)\<rparr>,
       \<lparr>n_id = 2, n_enroll_id = 2, n_nilai_angka = Some (Finite 70)\<rparr>],
     nilai_seq = 2 \<rparr>"

definition no_session :: session_t where
  "no_session = \<lparr>user_id = None, role = None, full_name = None\<rparr>"

definition admin_session :: session_t where
  "admin_session = \<lparr>user_id = Some 1, role = Some ''admin'', full_name = Some ''Administrator''\<rparr>"

definition dosen1_session :: session_t where
  "dosen1_session = \<lparr>user_id = Some 2, role = Some ''dosen'', full_name = Some ''Dr. Dosen Satu''\<rparr>"

definition dosen2_session :: session_t where
  "dosen2_session = \<lparr>user_id = Some 4, role = Some ''dosen'', full_name = Some ''Dr. Dosen Dua''\<rparr>"

definition demo_state :: "session_t \<Rightarrow> state" where
  "demo_state s = \<lparr>db = demo_db, session = s, flashes = []\<rparr>"

text \<open>
  Stand-ins for the library functions the views take as parameters, right on the strings
  the examples use: \<open>float\<close> and \<open>int\<close> on a few numerals and on \<open>nan\<close> (\<open>None\<close>, the
  ValueError, for the other strings of the examples, such as \<open>abc\<close>), and a password check that
  accepts exactly the digest \<open>#\<close> followed by the password.
\<close>

definition demo_float :: "string \<Rightarrow> pyfloat option" where
  "demo_float = map_of [(''90.0'', Finite 90), (''77.5'', Finite 77.5), (''60'', Finite 60),
                        (''nan'', Not_a_number)]"

definition demo_int :: "string \<Rightarrow> int option" where
  "demo_int = map_of [(''3'', 3), (''5'', 5), (''9223372036854775808'', 9223372036854775808)]"

definition demo_hash :: "string \<Rightarrow> string" where
  "demo_hash password = CHR ''#'' # password"

definition demo_check :: "string \<Rightarrow> string \<Rightarrow> bool" where
  "demo_check digest password = (digest = demo_hash password)"

definition post :: "(string \<times> string) list \<Rightarrow> request" where
  "post kvs = \<lparr>req_method = POST, form = map_of kvs\<rparr>"

text \<open>
  The statement dosen_set_nilai sends for a grade (lines 717-721): the UPDATE when the
  enrollment has a Grade row, the INSERT otherwise.
\<close>

definition upsert :: "int \<Rightarrow> pyfloat \<Rightarrow> database \<Rightarrow> stmt" where
  "upsert i v d = (case query_db_one (filter (\<lambda>n. n_enroll_id n = i) (nilai d)) of
      Some _ \<Rightarrow> Update_nilai v i | None \<Rightarrow> Insert_nilai i v)"

text \<open>
  The statements of the two cascades, in the order the views send them, and the notions
  to speak about statements that may not run: the database after a statement and after a
  list of statements (a statement whose binding raises changes nothing and ends the
  list), the number of leading statements \<open>execute_db\<close> executes and commits under an
  engine, and the exception of the first statement that raises.
\<close>

definition delete_mahasiswa_cascade :: "int \<Rightarrow> stmt list" where
  "delete_mahasiswa_cascade mhs_id =
     [Delete_nilai_of_mahasiswa mhs_id, Delete_enroll_of_mahasiswa mhs_id,
      Delete_mahasiswa mhs_id, Delete_users mhs_id]"

definition unenroll_cascade :: "int \<Rightarrow> stmt list" where
  "unenroll_cascade enroll_id = [Delete_nilai_of_enroll enroll_id, Delete_enroll enroll_id]"

definition after :: "stmt \<Rightarrow> database \<Rightarrow> database" where
  "after q d = (case exec q d of Inl _ \<Rightarrow> d | Inr d' \<Rightarrow> d')"

fun apply_all :: "stmt list \<Rightarrow> database \<Rightarrow> database" where
  "apply_all [] d = d"
| "apply_all (q # qs) d = (case exec q d of Inl _ \<Rightarrow> d | Inr d' \<Rightarrow> apply_all qs d')"

fun committed :: "engine \<Rightarrow> stmt list \<Rightarrow> database \<Rightarrow> nat" where
  "committed eng [] d = 0"
| "committed eng (q # qs) d =
     (case execute_db eng q d of Inl _ \<Rightarrow> 0 | Inr d' \<Rightarrow> Suc (committed eng qs d'))"

fun raised :: "engine \<Rightarrow> stmt list \<Rightarrow> database \<Rightarrow> error option" where
  "raised eng [] d = None"
| "raised eng (q # qs) d =
     (case execute_db eng q d of Inl x \<Rightarrow> Some x | Inr d' \<Rightarrow> raised eng qs d')"

text \<open>
  What init_db leaves in the file, read as the accounts it holds (username, digest, role),
  and the database the seeding creates, written out.
\<close>

definition accounts_of :: "error + database option \<Rightarrow> (string \<times> string \<times> string) list" where
  "accounts_of r =
     (case r of
        Inr (Some d) \<Rightarrow> map (\<lambda>u. (u_username u, u_password_hash u, u_role u)) (users d)
      | _ \<Rightarrow> [])"

definition seed_db :: "(string \<Rightarrow> string) \<Rightarrow> database" where
  "seed_db generate_password_hash = \<lparr>
     users = [
       \<lparr>u_id = 1, u_username = ''admin'', u_password_hash = generate_password_hash ''admin123'',
        u_role = ''admin'', u_full_name = ''Administrator''\<rparr>,
       \<lparr>u_id = 2, u_username = ''dosen1'', u_password_hash = generate_password_hash ''dosen123'',
        u_role = ''dosen'', u_full_name = ''Dr. Dosen Satu''\<rparr>,
       \<lparr>u_id = 3, u_username = ''mahasiswa1'',
        u_password_hash = generate_password_hash ''mahasiswa123'',
        u_role = ''mahasiswa'', u_full_name = ''Budi Mahasiswa''\<rparr>],
     users_seq = 3,
     mahasiswa = [
       \<lparr>m_id = 3, m_nim = ''20231001'', m_alamat = ''Jl. Merdeka 1'', m_phone = ''081234567890''\<rparr>],
     dosen = [\<lparr>d_id = 2, d_nidn = ''NIDN12345''\<rparr>],
     mata_kuliah = [
       \<lparr>mk_id = 1, mk_kode = ''JARKOM101'', mk_nama = ''Jaringan Komputer'', mk_sks = 3\<rparr>],
     mata_kuliah_seq = 1,
     kelas = [\<lparr>k_id = 1, k_nama = ''Jarkom - Pagi'', k_mata_kuliah_id = 1, k_dosen_id = 2\<rparr>],
     kelas_seq = 1,
     jadwal = [\<lparr>j_id = 1, j_kelas_id = 1, j_hari = ''Senin'', j_jam = ''08:00-10:00''\<rparr>],
     jadwal_seq = 1,
     enroll = [\<lparr>e_id = 1, e_mahasiswa_id = 3, e_kelas_id = 1\<rparr>],
     enroll_seq = 1,
     nilai = [\<lparr>n_id = 1, n_enroll_id = 1, n_nilai_angka = Some (Finite 85)\<rparr>],
     nilai_seq = 1 \<rparr>"

section \<open>Properties of the role guard\<close>

text \<open>
  C7. A session with no \<open>user_id\<close> is redirected to login and the state is untouched;
  an authenticated session whose role is not the required (non-empty) one gets the
  warning "Akses ditolak: hak akses diperlukan: " followed by the role appended to its
  flashed messages, and is redirected to the index. In both cases the result does not
  depend on the action \<open>f\<close>, which is not run: the four guarded views of this theory
  leave the database as it is. An action guarded with no role, or with the session's
  own role, runs for every authenticated session.
\<close>

theorem login_required_guard:
  "(user_id (session st) = None \<longrightarrow>
      login_required rl f st = (st, Redirect Ep_login) \<and>
      delete_mahasiswa eng mhs_id st = (st, Redirect Ep_login) \<and>
      enroll_mahasiswa py_int eng req kelas_id st = (st, Redirect Ep_login) \<and>
      unenroll eng kelas_id enroll_id st = (st, Redirect Ep_login) \<and>
      dosen_set_nilai py_float eng req enroll_id st = (st, Redirect Ep_login)) \<and>
   (user_id (session st) \<noteq> None \<and> r \<noteq> [] \<and> role (session st) \<noteq> Some r \<longrightarrow>
      login_required (Some r) f st =
        (st\<lparr>flashes := flashes st @ [''Akses ditolak: hak akses diperlukan: '' @ r]\<rparr>,
         Redirect Ep_index)) \<and>
   (user_id (session st) \<noteq> None \<and> role (session st) \<noteq> Some ''admin'' \<longrightarrow>
      delete_mahasiswa eng mhs_id st =
        (st\<lparr>flashes := flashes st @ [''Akses ditolak: hak akses diperlukan: admin'']\<rparr>,
         Redirect Ep_index) \<and>
      enroll_mahasiswa py_int eng req kelas_id st =
        (st\<lparr>flashes := flashes st @ [''Akses ditolak: hak akses diperlukan: admin'']\<rparr>,
         Redirect Ep_index) \<and>
      unenroll eng kelas_id enroll_id st =
        (st\<lparr>flashes := flashes st @ [''Akses ditolak: hak akses diperlukan: admin'']\<rparr>,
         Redirect Ep_index)) \<and>
   (user_id (session st) \<noteq> None \<and> role (session st) \<noteq> Some ''dosen'' \<longrightarrow>
      dosen_set_nilai py_float eng req enroll_id st =
        (st\<lparr>flashes := flashes st @ [''Akses ditolak: hak akses diperlukan: dosen'']\<rparr>,
         Redirect Ep_index)) \<and>
   (user_id (session st) \<noteq> None \<longrightarrow> login_required None f st = f st) \<and>
   (user_id (session st) \<noteq> None \<and> role (session st) = Some r \<longrightarrow>
      login_required (Some r) f st = f st)"
  by (simp add: login_required_def flash_def delete_mahasiswa_def enroll_mahasiswa_def
        unenroll_def dosen_set_nilai_def)

theorem login_required_guard_witness:
  "user_id no_session = None \<and>
   login_required (Some ''admin'') (delete_mahasiswa_body no_fault 3) (demo_state no_session)
     = (\<lparr>db = demo_db, session = no_session, flashes = []\<rparr>, Redirect Ep_login) \<and>
   user_id dosen1_session \<noteq> None \<and> role dosen1_session \<noteq> Some ''admin'' \<and>
   login_required (Some ''admin'') (delete_mahasiswa_body no_fault 3) (demo_state dosen1_session)
     = (\<lparr>db = demo_db, session = dosen1_session,
         flashes = [''Akses ditolak: hak akses diperlukan: admin'']\<rparr>, Redirect Ep_index) \<and>
   delete_mahasiswa no_fault 3 (demo_state dosen1_session)
     = (\<lparr>db = demo_db, session = dosen1_session,
         flashes = [''Akses ditolak: hak akses diperlukan: admin'']\<rparr>, Redirect Ep_index) \<and>
   role admin_session \<noteq> Some ''dosen'' \<and>
   dosen_set_nilai demo_float no_fault (post [(''nilai'', ''90.0'')]) 1 (demo_state admin_session)
     = (\<lparr>db = demo_db, session = admin_session,
         flashes = [''Akses ditolak: hak akses diperlukan: dosen'']\<rparr>, Redirect Ep_index) \<and>
   login_required None (delete_mahasiswa_body no_fault 3) (demo_state dosen1_session)
     = delete_mahasiswa_body no_fault 3 (demo_state dosen1_session) \<and>
   login_required (Some ''admin'') (delete_mahasiswa_body no_fault 3) (demo_state admin_session)
     = delete_mahasiswa_body no_fault 3 (demo_state admin_session)"
  using login_required_guard [where st = "demo_state no_session" and rl = "Some ''admin''"
          and f = "delete_mahasiswa_body no_fault 3" and r = "''admin''"]
        login_required_guard [where st = "demo_state dosen1_session" and rl = "None"
          and f = "delete_mahasiswa_body no_fault 3" and r = "''admin''"
          and eng = no_fault and mhs_id = 3]
        login_required_guard [where st = "demo_state admin_session" and rl = "None"
          and f = "delete_mahasiswa_body no_fault 3" and r = "''admin''"
          and eng = no_fault and py_float = demo_float
          and req = "post [(''nilai'', ''90.0'')]" and enroll_id = 1]
  by (simp add: demo_state_def no_session_def dosen1_session_def admin_session_def)

section \<open>Ids and lookups\<close>

lemma fold_max_init: "(a::int) \<le> fold max ids a"
proof (induction ids arbitrary: a)
  case Nil
  show ?case by simp
next
  case (Cons y ys)
  have "a \<le> max y a" by simp
  also have "max y a \<le> fold max ys (max y a)" by (rule Cons.IH)
  finally show ?case by simp
qed

lemma fold_max_ge: "x \<in> set ids \<Longrightarrow> x \<le> fold max ids (a::int)"
proof (induction ids arbitrary: a)
  case Nil
  then show ?case by simp
next
  case (Cons y ys)
  show ?case
  proof (cases "x = y")
    case True
    have "y \<le> max y a" by simp
    also have "max y a \<le> fold max ys (max y a)" by (rule fold_max_init)
    finally show ?thesis using True by simp
  next
    case False
    with Cons.prems have "x \<in> set ys" by simp
    then show ?thesis using Cons.IH by simp
  qed
qed

text \<open>An AUTOINCREMENT id is new to the table.\<close>

lemma autoincrement_fresh: "autoincrement seq ids \<notin> set ids"
proof
  assume "autoincrement seq ids \<in> set ids"
  then have "autoincrement seq ids \<le> fold max ids 0" by (rule fold_max_ge)
  then show False by (simp add: autoincrement_def)
qed

lemma inj_ids:
  "distinct (map f xs) \<Longrightarrow> x \<in> set xs \<Longrightarrow> y \<in> set xs \<Longrightarrow> f x = f y \<Longrightarrow> x = y"
  by (meson distinct_map inj_onD)

lemma first_unique:
  assumes "\<And>x y. x \<in> set xs \<Longrightarrow> y \<in> set xs \<Longrightarrow> x = y"
  shows "query_db_one xs = Some x \<longleftrightarrow> x \<in> set xs"
  using assms by (cases xs) (auto simp: query_db_one_def)

text \<open>
  With primary keys, the join of dosen_set_nilai's first query has at most one row: the
  enrollment with the id and the class section it names.
\<close>

lemma join_lookup:
  assumes "distinct (map e_id (enroll d))" "distinct (map k_id (kelas d))"
  shows "query_db_one [(e, k). e \<leftarrow> enroll d, k \<leftarrow> kelas d, e_kelas_id e = k_id k, e_id e = i]
           = Some (e, k) \<longleftrightarrow>
         e \<in> set (enroll d) \<and> k \<in> set (kelas d) \<and> e_kelas_id e = k_id k \<and> e_id e = i"
proof -
  let ?L = "[(e, k). e \<leftarrow> enroll d, k \<leftarrow> kelas d, e_kelas_id e = k_id k, e_id e = i]"
  have mem: "\<And>a b. (a, b) \<in> set ?L \<longleftrightarrow>
      a \<in> set (enroll d) \<and> b \<in> set (kelas d) \<and> e_kelas_id a = k_id b \<and> e_id a = i"
    by auto
  have uniq: "\<And>x y. x \<in> set ?L \<Longrightarrow> y \<in> set ?L \<Longrightarrow> x = y"
  proof -
    fix x y assume x: "x \<in> set ?L" and y: "y \<in> set ?L"
    obtain a b where xa: "x = (a, b)" by (cases x)
    obtain a' b' where ya: "y = (a', b')" by (cases y)
    from x xa mem have 1: "a \<in> set (enroll d)" "b \<in> set (kelas d)"
      "e_kelas_id a = k_id b" "e_id a = i"
      by blast+
    from y ya mem have 2: "a' \<in> set (enroll d)" "b' \<in> set (kelas d)"
      "e_kelas_id a' = k_id b'" "e_id a' = i"
      by blast+
    have "a = a'" using inj_ids [OF assms(1) 1(1) 2(1)] 1(4) 2(4) by simp
    moreover have "b = b'"
      using inj_ids [OF assms(2) 1(2) 2(2)] 1(3) 2(3) \<open>a = a'\<close> by simp
    ultimately show "x = y" using xa ya by simp
  qed
  show ?thesis using first_unique [OF uniq, where x = "(e, k)"] mem by blast
qed

text \<open>The id of a stored enrollment is a 64-bit integer.\<close>

lemma teaches_stored: "primary_keys d \<Longrightarrow> teaches d uid i \<Longrightarrow> sqlite_int i"
  by (auto simp: primary_keys_def teaches_def list_all_iff)

section \<open>Setting a grade\<close>

lemma exec_upsert:
  "sqlite_int i \<Longrightarrow> exec (upsert i v d) d = Inr (after (upsert i v d) d)"
  by (cases "query_db_one (filter (\<lambda>n. n_enroll_id n = i) (nilai d))")
     (simp_all add: upsert_def after_def insert_nilai_def Let_def)

lemma nilai_upsert:
  assumes "sqlite_int i"
  shows "nilai (after (upsert i v d) d) =
     (if grade_rows d i = []
      then nilai d @ [\<lparr>n_id = autoincrement (nilai_seq d) (map n_id (nilai d)),
                       n_enroll_id = i, n_nilai_angka = sql_real v\<rparr>]
      else map (\<lambda>n. if n_enroll_id n = i then n\<lparr>n_nilai_angka := sql_real v\<rparr> else n) (nilai d))"
  using assms
  by (cases "filter (\<lambda>n. n_enroll_id n = i) (nilai d)")
     (simp_all add: upsert_def after_def grade_rows_def query_db_one_def insert_nilai_def Let_def)

lemma upsert_frame:
  "enroll (after (upsert i v d) d) = enroll d \<and> kelas (after (upsert i v d) d) = kelas d \<and>
   users (after (upsert i v d) d) = users d \<and> mahasiswa (after (upsert i v d) d) = mahasiswa d \<and>
   dosen (after (upsert i v d) d) = dosen d \<and>
   mata_kuliah (after (upsert i v d) d) = mata_kuliah d \<and>
   jadwal (after (upsert i v d) d) = jadwal d"
  by (cases "filter (\<lambda>n. n_enroll_id n = i) (nilai d)")
     (simp_all add: upsert_def after_def query_db_one_def insert_nilai_def Let_def)

lemma grade_rows_upsert:
  assumes "sqlite_int i"
  shows "grade_rows (after (upsert i v d) d) i =
     (if grade_rows d i = []
      then [\<lparr>n_id = autoincrement (nilai_seq d) (map n_id (nilai d)), n_enroll_id = i,
              n_nilai_angka = sql_real v\<rparr>]
      else map (\<lambda>n. n\<lparr>n_nilai_angka := sql_real v\<rparr>) (grade_rows d i))"
proof -
  have upd: "filter (\<lambda>n. n_enroll_id n = i)
          (map (\<lambda>n. if n_enroll_id n = i then n\<lparr>n_nilai_angka := w\<rparr> else n) xs)
        = map (\<lambda>n. n\<lparr>n_nilai_angka := w\<rparr>) (filter (\<lambda>n. n_enroll_id n = i) xs)" for xs w
    by (induction xs) auto
  show ?thesis
  proof (cases "grade_rows d i = []")
    case True
    have "grade_rows (after (upsert i v d) d) i =
        filter (\<lambda>n. n_enroll_id n = i)
          (nilai d @ [\<lparr>n_id = autoincrement (nilai_seq d) (map n_id (nilai d)),
                       n_enroll_id = i, n_nilai_angka = sql_real v\<rparr>])"
      unfolding grade_rows_def [of "after (upsert i v d) d"] nilai_upsert [OF assms]
      using True by simp
    then show ?thesis using True by (simp add: grade_rows_def)
  next
    case False
    have "grade_rows (after (upsert i v d) d) i =
        filter (\<lambda>n. n_enroll_id n = i)
          (map (\<lambda>n. if n_enroll_id n = i then n\<lparr>n_nilai_angka := sql_real v\<rparr> else n) (nilai d))"
      unfolding grade_rows_def [of "after (upsert i v d) d"] nilai_upsert [OF assms]
      using False by simp
    also have "\<dots> = map (\<lambda>n. n\<lparr>n_nilai_angka := sql_real v\<rparr>) (grade_rows d i)"
      unfolding grade_rows_def by (rule upd)
    finally show ?thesis using False by simp
  qed
qed

lemma grade_rows_upsert_other:
  assumes "j \<noteq> i"
  shows "grade_rows (after (upsert i v d) d) j = grade_rows d j"
proof (cases "sqlite_int i")
  case False
  then have "after (upsert i v d) d = d"
    by (cases "query_db_one (filter (\<lambda>n. n_enroll_id n = i) (nilai d))")
       (simp_all add: upsert_def after_def insert_nilai_def)
  then show ?thesis by simp
next
  case True
  have upd: "filter (\<lambda>n. n_enroll_id n = j)
          (map (\<lambda>n. if n_enroll_id n = i then n\<lparr>n_nilai_angka := w\<rparr> else n) xs)
        = filter (\<lambda>n. n_enroll_id n = j) xs" for xs w
    using assms by (induction xs) auto
  show ?thesis
    unfolding grade_rows_def [of "after (upsert i v d) d"] nilai_upsert [OF True]
    using assms by (simp add: grade_rows_def upd)
qed

lemma body_overflow:
  "\<not> sqlite_int i \<Longrightarrow> dosen_set_nilai_body pf eng req i st = (st, Raised OverflowError)"
  by (simp add: dosen_set_nilai_body_def)

lemma body_denied:
  assumes "distinct (map e_id (enroll (db st)))" "distinct (map k_id (kelas (db st)))"
    and "user_id (session st) = Some uid"
    and "sqlite_int i"
    and "\<not> teaches (db st) uid i"
  shows "dosen_set_nilai_body pf eng req i st =
           (st\<lparr>flashes := flashes st @ [''Akses ditolak'']\<rparr>, Redirect Ep_dosen_dashboard)"
proof (cases "query_db_one [(e, k). e \<leftarrow> enroll (db st), k \<leftarrow> kelas (db st),
                           e_kelas_id e = k_id k, e_id e = i]")
  case None
  then show ?thesis using assms(4) by (simp add: dosen_set_nilai_body_def flash_def)
next
  case (Some p)
  obtain e k where p: "p = (e, k)" by (cases p)
  from Some p join_lookup [OF assms(1,2), of i e k]
  have "e \<in> set (enroll (db st))" "k \<in> set (kelas (db st))" "e_kelas_id e = k_id k" "e_id e = i"
    by simp_all
  with assms(5) have "k_dosen_id k \<noteq> uid" by (auto simp: teaches_def)
  with Some p assms(3,4) show ?thesis by (simp add: dosen_set_nilai_body_def flash_def)
qed

lemma body_owner:
  assumes "distinct (map e_id (enroll (db st)))" "distinct (map k_id (kelas (db st)))"
    and "user_id (session st) = Some uid"
    and "sqlite_int i"
    and "teaches (db st) uid i"
    and "req_method req = POST"
  shows "\<exists>e \<in> set (enroll (db st)). e_id e = i \<and>
           dosen_set_nilai_body pf eng req i st =
             (case form req ''nilai'' of
                None \<Rightarrow> (st, Raised BadRequestKeyError)
              | Some s \<Rightarrow>
                 (case pf s of
                    None \<Rightarrow> (st, Raised ValueError)
                  | Some v \<Rightarrow>
                     (case execute_db eng (upsert i v (db st)) (db st) of
                        Inl x \<Rightarrow> (st, Raised x)
                      | Inr d \<Rightarrow> (st\<lparr>db := d, flashes := flashes st @ [''Nilai tersimpan'']\<rparr>,
                                  Redirect (Ep_dosen_view_kelas (e_kelas_id e))))))"
proof -
  from assms(5) obtain e k where ek: "e \<in> set (enroll (db st))" "k \<in> set (kelas (db st))"
      "e_id e = i" "k_id k = e_kelas_id e" "k_dosen_id k = uid"
    by (auto simp: teaches_def)
  then have "query_db_one [(e, k). e \<leftarrow> enroll (db st), k \<leftarrow> kelas (db st),
                           e_kelas_id e = k_id k, e_id e = i] = Some (e, k)"
    using join_lookup [OF assms(1,2), of i e k] by simp
  with ek assms(3,4,6) have "dosen_set_nilai_body pf eng req i st =
             (case form req ''nilai'' of
                None \<Rightarrow> (st, Raised BadRequestKeyError)
              | Some s \<Rightarrow>
                 (case pf s of
                    None \<Rightarrow> (st, Raised ValueError)
                  | Some v \<Rightarrow>
                     (case execute_db eng (upsert i v (db st)) (db st) of
                        Inl x \<Rightarrow> (st, Raised x)
                      | Inr d \<Rightarrow> (st\<lparr>db := d, flashes := flashes st @ [''Nilai tersimpan'']\<rparr>,
                                  Redirect (Ep_dosen_view_kelas (e_kelas_id e))))))"
    by (simp add: dosen_set_nilai_body_def upsert_def Let_def flash_def
          split: option.splits sum.splits)
  with ek show ?thesis by blast
qed

lemma route_dosen:
  "user_id (session st) = Some uid \<Longrightarrow> role (session st) = Some ''dosen'' \<Longrightarrow>
   dosen_set_nilai pf eng req i st = dosen_set_nilai_body pf eng req i st"
  by (simp add: dosen_set_nilai_def login_required_def)

lemma set_nilai_step:
  assumes "distinct (map e_id (enroll (db st)))" "distinct (map k_id (kelas (db st)))"
    and "user_id (session st) = Some uid" and "role (session st) = Some ''dosen''"
    and "sqlite_int i"
    and "teaches (db st) uid i"
    and "req_method req = POST" "form req ''nilai'' = Some s" "pf s = Some v"
  shows "\<exists>e \<in> set (enroll (db st)). e_id e = i \<and>
           dosen_set_nilai pf no_fault req i st =
             (st\<lparr>db := after (upsert i v (db st)) (db st),
                 flashes := flashes st @ [''Nilai tersimpan'']\<rparr>,
              Redirect (Ep_dosen_view_kelas (e_kelas_id e)))"
  using body_owner [where pf = pf and eng = no_fault, OF assms(1,2,3,5,6,7)]
        route_dosen [OF assms(3,4), of pf no_fault req i] assms(8,9)
        exec_upsert [OF assms(5), of v "db st"]
  by (auto simp: execute_db_def no_fault_def)

text \<open>
  C1, as the code has it. For an instructor session (user \<open>uid\<close>, role dosen) and an
  enrollment id SQLite can bind (\<open>-2^63 \<le> id < 2^63\<close>): when the enrollment does not
  exist, or its class section is taught by someone else, dosen_set_nilai appends the
  message "Akses ditolak" to the flashed messages, redirects to the instructor dashboard
  and leaves the database and the session untouched, whatever the request and the
  engine; when the enrollment exists and its class section is taught by \<open>uid\<close>, a POST
  with a grade \<open>float\<close> accepts records it: the enrollment then has a Grade row, every
  Grade row of it holds the grade, "Nilai tersimpan" is flashed and the instructor is
  sent to the view of that class section. For an id outside that range the first query
  raises OverflowError, which nothing catches: the state is untouched and the answer is
  the error, not the refusal. In every case the database changes only for the instructor
  of the class section.
\<close>

theorem dosen_set_nilai_owner_only:
  assumes pk: "primary_keys (db st)"
    and uid: "user_id (session st) = Some uid"
    and rl: "role (session st) = Some ''dosen''"
  shows "(sqlite_int enroll_id \<and> \<not> teaches (db st) uid enroll_id \<longrightarrow>
            dosen_set_nilai py_float eng req enroll_id st =
              (st\<lparr>flashes := flashes st @ [''Akses ditolak'']\<rparr>, Redirect Ep_dosen_dashboard)) \<and>
         (teaches (db st) uid enroll_id \<and> req_method req = POST \<and>
          form req ''nilai'' = Some s \<and> py_float s = Some v \<longrightarrow>
            (\<exists>e \<in> set (enroll (db st)). e_id e = enroll_id \<and>
               snd (dosen_set_nilai py_float no_fault req enroll_id st) =
                 Redirect (Ep_dosen_view_kelas (e_kelas_id e))) \<and>
            flashes (fst (dosen_set_nilai py_float no_fault req enroll_id st)) =
              flashes st @ [''Nilai tersimpan''] \<and>
            session (fst (dosen_set_nilai py_float no_fault req enroll_id st)) = session st \<and>
            grades_of (db (fst (dosen_set_nilai py_float no_fault req enroll_id st))) enroll_id \<noteq> [] \<and>
            set (grades_of (db (fst (dosen_set_nilai py_float no_fault req enroll_id st))) enroll_id)
              = {sql_real v}) \<and>
         (\<not> sqlite_int enroll_id \<longrightarrow>
            dosen_set_nilai py_float eng req enroll_id st = (st, Raised OverflowError)) \<and>
         (db (fst (dosen_set_nilai py_float eng req enroll_id st)) \<noteq> db st \<longrightarrow>
            teaches (db st) uid enroll_id)"
proof -
  from pk have d: "distinct (map e_id (enroll (db st)))" "distinct (map k_id (kelas (db st)))"
    by (simp_all add: primary_keys_def)
  have r: "dosen_set_nilai py_float eng req enroll_id st =
      dosen_set_nilai_body py_float eng req enroll_id st" for eng
    by (rule route_dosen [OF uid rl])
  have denied: "dosen_set_nilai py_float eng req enroll_id st =
      (st\<lparr>flashes := flashes st @ [''Akses ditolak'']\<rparr>, Redirect Ep_dosen_dashboard)"
    if "sqlite_int enroll_id" "\<not> teaches (db st) uid enroll_id"
    unfolding r by (rule body_denied [OF d uid that])
  have overflow: "dosen_set_nilai py_float eng req enroll_id st = (st, Raised OverflowError)"
    if "\<not> sqlite_int enroll_id"
    unfolding r by (rule body_overflow [OF that])
  have allowed: "(\<exists>e \<in> set (enroll (db st)). e_id e = enroll_id \<and>
               snd (dosen_set_nilai py_float no_fault req enroll_id st) =
                 Redirect (Ep_dosen_view_kelas (e_kelas_id e))) \<and>
            flashes (fst (dosen_set_nilai py_float no_fault req enroll_id st)) =
              flashes st @ [''Nilai tersimpan''] \<and>
            session (fst (dosen_set_nilai py_float no_fault req enroll_id st)) = session st \<and>
            grades_of (db (fst (dosen_set_nilai py_float no_fault req enroll_id st))) enroll_id \<noteq> [] \<and>
            set (grades_of (db (fst (dosen_set_nilai py_float no_fault req enroll_id st))) enroll_id)
              = {sql_real v}"
    if t: "teaches (db st) uid enroll_id" and p: "req_method req = POST"
      "form req ''nilai'' = Some s" "py_float s = Some v"
  proof -
    have rng: "sqlite_int enroll_id" by (rule teaches_stored [OF pk t])
    from set_nilai_step [where pf = py_float and s = s and v = v, OF d uid rl rng t p]
    obtain e where e: "e \<in> set (enroll (db st))" "e_id e = enroll_id"
      and res: "dosen_set_nilai py_float no_fault req enroll_id st =
        (st\<lparr>db := after (upsert enroll_id v (db st)) (db st),
            flashes := flashes st @ [''Nilai tersimpan'']\<rparr>,
         Redirect (Ep_dosen_view_kelas (e_kelas_id e)))"
      by blast
    have g: "grades_of (after (upsert enroll_id v (db st)) (db st)) enroll_id =
        (if grade_rows (db st) enroll_id = [] then [sql_real v]
         else replicate (length (grade_rows (db st) enroll_id)) (sql_real v))"
      by (simp add: grades_of_def grade_rows_upsert [OF rng] map_replicate_const comp_def)
    have "grades_of (after (upsert enroll_id v (db st)) (db st)) enroll_id \<noteq> []"
      "set (grades_of (after (upsert enroll_id v (db st)) (db st)) enroll_id) = {sql_real v}"
      using g by (auto split: if_splits)
    with e res show ?thesis by auto
  qed
  have changed: "teaches (db st) uid enroll_id"
    if "db (fst (dosen_set_nilai py_float eng req enroll_id st)) \<noteq> db st"
  proof (rule ccontr)
    assume nt: "\<not> teaches (db st) uid enroll_id"
    show False
    proof (cases "sqlite_int enroll_id")
      case True
      from denied [OF True nt] that show False by simp
    next
      case False
      from overflow [OF False] that show False by simp
    qed
  qed
  from denied allowed overflow changed show ?thesis by blast
qed

theorem dosen_set_nilai_owner_only_witness:
  "primary_keys demo_db \<and> sqlite_int 1 \<and>
   \<not> teaches demo_db 4 1 \<and>
   dosen_set_nilai demo_float no_fault (post [(''nilai'', ''90.0'')]) 1 (demo_state dosen2_session)
     = (\<lparr>db = demo_db, session = dosen2_session, flashes = [''Akses ditolak'']\<rparr>,
        Redirect Ep_dosen_dashboard) \<and>
   teaches demo_db 2 1 \<and>
   snd (dosen_set_nilai demo_float no_fault (post [(''nilai'', ''90.0'')]) 1 (demo_state dosen1_session))
     = Redirect (Ep_dosen_view_kelas 1) \<and>
   flashes (fst (dosen_set_nilai demo_float no_fault (post [(''nilai'', ''90.0'')]) 1
       (demo_state dosen1_session))) = [''Nilai tersimpan''] \<and>
   grades_of (db (fst (dosen_set_nilai demo_float no_fault (post [(''nilai'', ''90.0'')]) 1
       (demo_state dosen1_session)))) 1 = [Some (Finite 90)] \<and>
   \<not> sqlite_int 9223372036854775808 \<and>
   dosen_set_nilai demo_float no_fault (post [(''nilai'', ''90.0'')]) 9223372036854775808
       (demo_state dosen1_session)
     = (\<lparr>db = demo_db, session = dosen1_session, flashes = []\<rparr>, Raised OverflowError)"
  using dosen_set_nilai_owner_only [where st = "demo_state dosen2_session" and uid = 4
          and enroll_id = 1 and py_float = demo_float and eng = no_fault
          and req = "post [(''nilai'', ''90.0'')]" and s = "''90.0''" and v = "Finite 90"]
        dosen_set_nilai_owner_only [where st = "demo_state dosen1_session" and uid = 2
          and enroll_id = 1 and py_float = demo_float and eng = no_fault
          and req = "post [(''nilai'', ''90.0'')]" and s = "''90.0''" and v = "Finite 90"]
        dosen_set_nilai_owner_only [where st = "demo_state dosen1_session" and uid = 2
          and enroll_id = 9223372036854775808 and py_float = demo_float and eng = no_fault
          and req = "post [(''nilai'', ''90.0'')]" and s = "''90.0''" and v = "Finite 90"]
  by (simp add: demo_state_def demo_db_def dosen1_session_def dosen2_session_def
        primary_keys_def teaches_def post_def demo_float_def sqlite_int_def sql_real_def
        dosen_set_nilai_def login_required_def dosen_set_nilai_body_def query_db_one_def
        execute_db_def no_fault_def insert_nilai_def grades_of_def grade_rows_def flash_def)

text \<open>
  The instructor of class section 1 asks for the grade form of the enrollment id
  \<open>2^63\<close>, which no enrollment has: the answer is the raised OverflowError, not the
  refusal, and no message is flashed.
\<close>

theorem set_nilai_overflow_counterexample:
  "\<not> teaches demo_db 2 9223372036854775808 \<and>
   snd (dosen_set_nilai demo_float no_fault \<lparr>req_method = GET, form = Map.empty\<rparr>
          9223372036854775808 (demo_state dosen1_session)) = Raised OverflowError \<and>
   snd (dosen_set_nilai demo_float no_fault \<lparr>req_method = GET, form = Map.empty\<rparr>
          9223372036854775808 (demo_state dosen1_session)) \<noteq> Redirect Ep_dosen_dashboard \<and>
   flashes (fst (dosen_set_nilai demo_float no_fault \<lparr>req_method = GET, form = Map.empty\<rparr>
          9223372036854775808 (demo_state dosen1_session))) = []"
  by (simp add: demo_state_def demo_db_def dosen1_session_def teaches_def sqlite_int_def
        dosen_set_nilai_def login_required_def dosen_set_nilai_body_def)

lemma teaches_cong:
  "enroll d' = enroll d \<Longrightarrow> kelas d' = kelas d \<Longrightarrow> teaches d' uid i = teaches d uid i"
  by (simp add: teaches_def)

lemma run_set_nilai:
  assumes "distinct (map e_id (enroll (db st)))" "distinct (map k_id (kelas (db st)))"
    and "user_id (session st) = Some uid" and "role (session st) = Some ''dosen''"
    and "sqlite_int i"
    and "teaches (db st) uid i"
    and "length (grade_rows (db st) i) \<le> 1"
    and "map pf ss = map Some vs"
  shows "grades_of (db (run (map (\<lambda>s. dosen_set_nilai pf no_fault (post [(''nilai'', s)]) i) ss) st)) i
           = (if vs = [] then grades_of (db st) i else [sql_real (last vs)])"
  using assms
proof (induction ss arbitrary: st vs)
  case Nil
  then show ?case by simp
next
  case (Cons s ss)
  from Cons.prems(8) obtain v vs' where vs: "vs = v # vs'" "pf s = Some v" "map pf ss = map Some vs'"
    by (cases vs) auto
  let ?st1 = "fst (dosen_set_nilai pf no_fault (post [(''nilai'', s)]) i st)"
  let ?d1 = "after (upsert i v (db st)) (db st)"
  have "\<exists>e \<in> set (enroll (db st)). e_id e = i \<and>
           dosen_set_nilai pf no_fault (post [(''nilai'', s)]) i st =
             (st\<lparr>db := ?d1, flashes := flashes st @ [''Nilai tersimpan'']\<rparr>,
              Redirect (Ep_dosen_view_kelas (e_kelas_id e)))"
    by (rule set_nilai_step [where pf = pf and s = s and v = v, OF Cons.prems(1-6) _ _ vs(2)])
       (simp_all add: post_def)
  then have st1: "?st1 = st\<lparr>db := ?d1, flashes := flashes st @ [''Nilai tersimpan'']\<rparr>"
    by auto
  have db1: "db ?st1 = ?d1" and s1: "session ?st1 = session st"
    by (simp_all add: st1)
  have fr: "enroll ?d1 = enroll (db st)" "kelas ?d1 = kelas (db st)"
    using upsert_frame [of i v "db st"] by simp_all
  have g1: "grade_rows ?d1 i =
     (if grade_rows (db st) i = []
      then [\<lparr>n_id = autoincrement (nilai_seq (db st)) (map n_id (nilai (db st))), n_enroll_id = i,
              n_nilai_angka = sql_real v\<rparr>]
      else map (\<lambda>n. n\<lparr>n_nilai_angka := sql_real v\<rparr>) (grade_rows (db st) i))"
    by (rule grade_rows_upsert [OF Cons.prems(5)])
  have len1: "length (grade_rows ?d1 i) = 1"
  proof (cases "grade_rows (db st) i")
    case Nil
    then show ?thesis using g1 by simp
  next
    case (Cons a as)
    with Cons.prems(7) have "as = []" by simp
    with Cons g1 show ?thesis by simp
  qed
  have gv: "grades_of ?d1 i = [sql_real v]"
  proof (cases "grade_rows (db st) i")
    case Nil
    then show ?thesis using g1 by (simp add: grades_of_def)
  next
    case (Cons a as)
    with Cons.prems(7) have "as = []" by simp
    with Cons g1 show ?thesis by (simp add: grades_of_def)
  qed
  have ih: "grades_of (db (run (map (\<lambda>s. dosen_set_nilai pf no_fault (post [(''nilai'', s)]) i) ss) ?st1)) i
           = (if vs' = [] then grades_of (db ?st1) i else [sql_real (last vs')])"
  proof (rule Cons.IH)
    show "distinct (map e_id (enroll (db ?st1)))" using Cons.prems(1) fr by (simp add: db1)
    show "distinct (map k_id (kelas (db ?st1)))" using Cons.prems(2) fr by (simp add: db1)
    show "user_id (session ?st1) = Some uid" using Cons.prems(3) by (simp add: s1)
    show "role (session ?st1) = Some ''dosen''" using Cons.prems(4) by (simp add: s1)
    show "sqlite_int i" by (rule Cons.prems(5))
    show "teaches (db ?st1) uid i" using Cons.prems(6) teaches_cong [OF fr] by (simp add: db1)
    show "length (grade_rows (db ?st1) i) \<le> 1" using len1 by (simp add: db1)
    show "map pf ss = map Some vs'" by (rule vs(3))
  qed
  show ?case using ih gv vs(1) by (simp add: db1)
qed

text \<open>
  C2. For the instructor of the enrollment's class section, a POST with a grade \<open>v\<close> is
  an upsert: when the enrollment has a Grade row the nilai table keeps its rows, ids and
  order and only the score of that enrollment's rows becomes \<open>v\<close>; when it has none,
  one row with a new id is appended. Hence, from a database with at most one Grade row
  for the enrollment, any non-empty sequence of grade posts leaves exactly one Grade
  row for it, holding the last value posted (as SQLite stores it: NULL for NaN).
\<close>

theorem grade_write_is_upsert:
  assumes pk: "primary_keys (db st)"
    and uid: "user_id (session st) = Some uid"
    and rl: "role (session st) = Some ''dosen''"
    and t: "teaches (db st) uid enroll_id"
  shows "(py_float s = Some v \<longrightarrow>
            (grade_rows (db st) enroll_id \<noteq> [] \<longrightarrow>
               nilai (db (fst (dosen_set_nilai py_float no_fault (post [(''nilai'', s)]) enroll_id st))) =
                 map (\<lambda>n. if n_enroll_id n = enroll_id then n\<lparr>n_nilai_angka := sql_real v\<rparr> else n)
                   (nilai (db st))) \<and>
            (grade_rows (db st) enroll_id = [] \<longrightarrow>
               nilai (db (fst (dosen_set_nilai py_float no_fault (post [(''nilai'', s)]) enroll_id st))) =
                 nilai (db st) @
                   [\<lparr>n_id = autoincrement (nilai_seq (db st)) (map n_id (nilai (db st))),
                     n_enroll_id = enroll_id, n_nilai_angka = sql_real v\<rparr>])) \<and>
         (length (grade_rows (db st) enroll_id) \<le> 1 \<and> map py_float ss = map Some vs \<and> vs \<noteq> [] \<longrightarrow>
            grades_of (db (run (map (\<lambda>s. dosen_set_nilai py_float no_fault
                                          (post [(''nilai'', s)]) enroll_id) ss) st)) enroll_id
              = [sql_real (last vs)])"
proof -
  from pk have d: "distinct (map e_id (enroll (db st)))" "distinct (map k_id (kelas (db st)))"
    by (simp_all add: primary_keys_def)
  have rng: "sqlite_int enroll_id" by (rule teaches_stored [OF pk t])
  have one: "nilai (db (fst (dosen_set_nilai py_float no_fault (post [(''nilai'', s)]) enroll_id st))) =
      nilai (after (upsert enroll_id v (db st)) (db st))" if "py_float s = Some v"
    using set_nilai_step [where pf = py_float and s = s and v = v
        and req = "post [(''nilai'', s)]", OF d uid rl rng t _ _ that]
    by (auto simp: post_def)
  have many: "grades_of (db (run (map (\<lambda>s. dosen_set_nilai py_float no_fault
                                          (post [(''nilai'', s)]) enroll_id) ss) st)) enroll_id
              = [sql_real (last vs)]"
    if "length (grade_rows (db st) enroll_id) \<le> 1" "map py_float ss = map Some vs" "vs \<noteq> []"
    using run_set_nilai [where pf = py_float, OF d uid rl rng t that(1,2)] that(3) by simp
  from one many show ?thesis by (simp add: nilai_upsert [OF rng])
qed

theorem grade_write_is_upsert_witness:
  "primary_keys demo_db \<and> teaches demo_db 2 1 \<and> grade_rows demo_db 1 \<noteq> [] \<and>
   length (grade_rows demo_db 1) \<le> 1 \<and>
   nilai (db (fst (dosen_set_nilai demo_float no_fault (post [(''nilai'', ''90.0'')]) 1
                     (demo_state dosen1_session)))) =
     [\<lparr>n_id = 1, n_enroll_id = 1, n_nilai_angka = Some (Finite 90)\<rparr>,
      \<lparr>n_id = 2, n_enroll_id = 2, n_nilai_angka = Some (Finite 70)\<rparr>] \<and>
   grades_of (db (run (map (\<lambda>s. dosen_set_nilai demo_float no_fault (post [(''nilai'', s)]) 1)
                        [''90.0'', ''77.5'']) (demo_state dosen1_session))) 1
     = [Some (Finite 77.5)] \<and>
   teaches demo_db 4 3 \<and> grade_rows demo_db 3 = [] \<and>
   nilai (db (fst (dosen_set_nilai demo_float no_fault (post [(''nilai'', ''60'')]) 3
                     (demo_state dosen2_session)))) =
     [\<lparr>n_id = 1, n_enroll_id = 1, n_nilai_angka = Some (Finite 85)\<rparr>,
      \<lparr>n_id = 2, n_enroll_id = 2, n_nilai_angka = Some (Finite 70)\<rparr>,
      \<lparr>n_id = 3, n_enroll_id = 3, n_nilai_angka = Some (Finite 60)\<rparr>] \<and>
   grades_of (db (run (map (\<lambda>s. dosen_set_nilai demo_float no_fault (post [(''nilai'', s)]) 3)
                        [''60'', ''90.0'']) (demo_state dosen2_session))) 3 = [Some (Finite 90)]"
  using grade_write_is_upsert [where st = "demo_state dosen1_session" and uid = 2
          and enroll_id = 1 and py_float = demo_float and s = "''90.0''" and v = "Finite 90"
          and ss = "[''90.0'', ''77.5'']" and vs = "[Finite 90, Finite 77.5]"]
        grade_write_is_upsert [where st = "demo_state dosen2_session" and uid = 4
          and enroll_id = 3 and py_float = demo_float and s = "''60''" and v = "Finite 60"
          and ss = "[''60'', ''90.0'']" and vs = "[Finite 60, Finite 90]"]
  by (simp add: demo_state_def demo_db_def dosen1_session_def dosen2_session_def
        primary_keys_def teaches_def demo_float_def grade_rows_def autoincrement_def
        sqlite_int_def sql_real_def)

section \<open>A grade that is not a number\<close>

lemma set_nilai_grades:
  assumes pk: "primary_keys (db st)"
    and uid: "user_id (session st) = Some uid"
    and rl: "role (session st) = Some ''dosen''"
    and t: "teaches (db st) uid i"
    and p: "req_method req = POST" "form req ''nilai'' = Some s" "pf s = Some v"
  shows "flashes (fst (dosen_set_nilai pf no_fault req i st)) = flashes st @ [''Nilai tersimpan''] \<and>
         grades_of (db (fst (dosen_set_nilai pf no_fault req i st))) i \<noteq> [] \<and>
         set (grades_of (db (fst (dosen_set_nilai pf no_fault req i st))) i) = {sql_real v}"
proof -
  from pk have d: "distinct (map e_id (enroll (db st)))" "distinct (map k_id (kelas (db st)))"
    by (simp_all add: primary_keys_def)
  have rng: "sqlite_int i" by (rule teaches_stored [OF pk t])
  from set_nilai_step [where pf = pf and s = s and v = v, OF d uid rl rng t p]
  have res: "fst (dosen_set_nilai pf no_fault req i st) =
        st\<lparr>db := after (upsert i v (db st)) (db st),
           flashes := flashes st @ [''Nilai tersimpan'']\<rparr>"
    by auto
  have g: "grades_of (after (upsert i v (db st)) (db st)) i =
        (if grade_rows (db st) i = [] then [sql_real v]
         else replicate (length (grade_rows (db st) i)) (sql_real v))"
    by (simp add: grades_of_def grade_rows_upsert [OF rng] map_replicate_const comp_def)
  have "grades_of (after (upsert i v (db st)) (db st)) i \<noteq> []"
      "set (grades_of (after (upsert i v (db st)) (db st)) i) = {sql_real v}"
    using g by (auto split: if_splits)
  then show ?thesis by (simp add: res)
qed

text \<open>
  C9, as the code has it. A POST to dosen_set_nilai whose grade field is missing, or is
  a string \<open>float\<close> rejects, writes to no table. For the instructor of the class
  section the exception is not caught: the request ends with the raised error (ValueError
  for a string \<open>float\<close> rejects, BadRequestKeyError for a missing field), the state is
  the one before and no message is flashed. For any other instructor the request is
  refused as in C1 (or ends with the OverflowError of an id SQLite cannot bind). A grade
  field \<open>float\<close> accepts is written even when it is not a number: NaN is stored as
  NULL and an infinity as it is, with the message "Nilai tersimpan".
\<close>

theorem malformed_grade_raises:
  assumes pk: "primary_keys (db st)"
    and uid: "user_id (session st) = Some uid"
    and rl: "role (session st) = Some ''dosen''"
    and p: "req_method req = POST"
  shows "(form req ''nilai'' = None \<or> (\<exists>s. form req ''nilai'' = Some s \<and> py_float s = None) \<longrightarrow>
            db (fst (dosen_set_nilai py_float eng req enroll_id st)) = db st \<and>
            (teaches (db st) uid enroll_id \<longrightarrow>
               dosen_set_nilai py_float eng req enroll_id st =
                 (st, Raised (if form req ''nilai'' = None then BadRequestKeyError else ValueError))) \<and>
            (sqlite_int enroll_id \<and> \<not> teaches (db st) uid enroll_id \<longrightarrow>
               dosen_set_nilai py_float eng req enroll_id st =
                 (st\<lparr>flashes := flashes st @ [''Akses ditolak'']\<rparr>, Redirect Ep_dosen_dashboard)) \<and>
            (\<not> sqlite_int enroll_id \<longrightarrow>
               dosen_set_nilai py_float eng req enroll_id st = (st, Raised OverflowError))) \<and>
         (teaches (db st) uid enroll_id \<and> form req ''nilai'' = Some s \<and>
          py_float s = Some v \<and> (v = Not_a_number \<or> v = Pos_inf \<or> v = Neg_inf) \<longrightarrow>
            flashes (fst (dosen_set_nilai py_float no_fault req enroll_id st)) =
              flashes st @ [''Nilai tersimpan''] \<and>
            grades_of (db (fst (dosen_set_nilai py_float no_fault req enroll_id st))) enroll_id \<noteq> [] \<and>
            set (grades_of (db (fst (dosen_set_nilai py_float no_fault req enroll_id st))) enroll_id)
              = {if v = Not_a_number then None else Some v})"
proof -
  from pk have d: "distinct (map e_id (enroll (db st)))" "distinct (map k_id (kelas (db st)))"
    by (simp_all add: primary_keys_def)
  have r: "dosen_set_nilai py_float eng req enroll_id st =
      dosen_set_nilai_body py_float eng req enroll_id st"
    by (rule route_dosen [OF uid rl])
  have a: "dosen_set_nilai py_float eng req enroll_id st =
              (st, Raised (if form req ''nilai'' = None then BadRequestKeyError else ValueError))"
    if bad: "form req ''nilai'' = None \<or> (\<exists>s. form req ''nilai'' = Some s \<and> py_float s = None)"
      and t: "teaches (db st) uid enroll_id"
    using body_owner [where pf = py_float and eng = eng,
            OF d uid teaches_stored [OF pk t] t p] bad r
    by auto
  have b: "dosen_set_nilai py_float eng req enroll_id st =
              (st\<lparr>flashes := flashes st @ [''Akses ditolak'']\<rparr>, Redirect Ep_dosen_dashboard)"
    if "sqlite_int enroll_id" "\<not> teaches (db st) uid enroll_id"
    unfolding r by (rule body_denied [OF d uid that])
  have c: "dosen_set_nilai py_float eng req enroll_id st = (st, Raised OverflowError)"
    if "\<not> sqlite_int enroll_id"
    unfolding r by (rule body_overflow [OF that])
  have nowrite: "db (fst (dosen_set_nilai py_float eng req enroll_id st)) = db st"
    if bad: "form req ''nilai'' = None \<or> (\<exists>s. form req ''nilai'' = Some s \<and> py_float s = None)"
  proof (cases "teaches (db st) uid enroll_id")
    case True
    from a [OF bad True] show ?thesis by simp
  next
    case False
    show ?thesis
    proof (cases "sqlite_int enroll_id")
      case True
      from b [OF True False] show ?thesis by simp
    next
      case False
      from c [OF False] show ?thesis by simp
    qed
  qed
  have w: "flashes (fst (dosen_set_nilai py_float no_fault req enroll_id st)) =
              flashes st @ [''Nilai tersimpan''] \<and>
            grades_of (db (fst (dosen_set_nilai py_float no_fault req enroll_id st))) enroll_id \<noteq> [] \<and>
            set (grades_of (db (fst (dosen_set_nilai py_float no_fault req enroll_id st))) enroll_id)
              = {if v = Not_a_number then None else Some v}"
    if "teaches (db st) uid enroll_id" "form req ''nilai'' = Some s" "py_float s = Some v"
    using set_nilai_grades [where pf = py_float, OF pk uid rl that(1) p that(2,3)]
    by (simp add: sql_real_def)
  from a b c nowrite w show ?thesis by blast
qed

theorem malformed_grade_raises_witness:
  "primary_keys demo_db \<and> teaches demo_db 2 1 \<and> demo_float ''abc'' = None \<and>
   dosen_set_nilai demo_float no_fault (post [(''nilai'', ''abc'')]) 1 (demo_state dosen1_session)
     = (\<lparr>db = demo_db, session = dosen1_session, flashes = []\<rparr>, Raised ValueError) \<and>
   sqlite_int 1 \<and> \<not> teaches demo_db 4 1 \<and>
   dosen_set_nilai demo_float no_fault (post [(''nilai'', ''abc'')]) 1 (demo_state dosen2_session)
     = (\<lparr>db = demo_db, session = dosen2_session, flashes = [''Akses ditolak'']\<rparr>,
        Redirect Ep_dosen_dashboard) \<and>
   demo_float ''nan'' = Some Not_a_number \<and>
   flashes (fst (dosen_set_nilai demo_float no_fault (post [(''nilai'', ''nan'')]) 1
                   (demo_state dosen1_session))) = [''Nilai tersimpan''] \<and>
   grades_of (db (fst (dosen_set_nilai demo_float no_fault (post [(''nilai'', ''nan'')]) 1
                   (demo_state dosen1_session)))) 1 = [None]"
  using malformed_grade_raises [where st = "demo_state dosen1_session" and uid = 2
          and enroll_id = 1 and py_float = demo_float and eng = no_fault
          and req = "post [(''nilai'', ''abc'')]"]
        malformed_grade_raises [where st = "demo_state dosen2_session" and uid = 4
          and enroll_id = 1 and py_float = demo_float and eng = no_fault
          and req = "post [(''nilai'', ''abc'')]"]
        malformed_grade_raises [where st = "demo_state dosen1_session" and uid = 2
          and enroll_id = 1 and py_float = demo_float and eng = no_fault
          and req = "post [(''nilai'', ''nan'')]" and s = "''nan''" and v = Not_a_number]
  by (simp add: demo_state_def demo_db_def dosen1_session_def dosen2_session_def
        primary_keys_def teaches_def demo_float_def post_def sqlite_int_def sql_real_def
        dosen_set_nilai_def login_required_def dosen_set_nilai_body_def query_db_one_def
        execute_db_def no_fault_def insert_nilai_def grades_of_def grade_rows_def flash_def)

text \<open>
  The instructor of class section 1 posts the grade \<open>abc\<close> for enrollment 1: the answer
  is the raised ValueError, not the form, and no message is flashed. The same instructor
  posts \<open>nan\<close>, which is not a number: it is written, as NULL, and "Nilai tersimpan" is
  flashed.
\<close>

theorem malformed_grade_counterexample:
  "snd (dosen_set_nilai demo_float no_fault (post [(''nilai'', ''abc'')]) 1
          (demo_state dosen1_session)) = Raised ValueError \<and>
   snd (dosen_set_nilai demo_float no_fault (post [(''nilai'', ''abc'')]) 1
          (demo_state dosen1_session)) \<noteq> Render Set_nilai_page \<and>
   flashes (fst (dosen_set_nilai demo_float no_fault (post [(''nilai'', ''abc'')]) 1
          (demo_state dosen1_session))) = [] \<and>
   grades_of demo_db 1 = [Some (Finite 85)] \<and>
   grades_of (db (fst (dosen_set_nilai demo_float no_fault (post [(''nilai'', ''nan'')]) 1
          (demo_state dosen1_session)))) 1 = [None] \<and>
   flashes (fst (dosen_set_nilai demo_float no_fault (post [(''nilai'', ''nan'')]) 1
          (demo_state dosen1_session))) = [''Nilai tersimpan'']"
  by (simp add: demo_state_def demo_db_def dosen1_session_def post_def demo_float_def
        dosen_set_nilai_def login_required_def dosen_set_nilai_body_def query_db_one_def
        sqlite_int_def sql_real_def execute_db_def no_fault_def grades_of_def grade_rows_def
        flash_def)

section \<open>The two cascades\<close>

lemma route_admin:
  "user_id (session st) \<noteq> None \<Longrightarrow> role (session st) = Some ''admin'' \<Longrightarrow>
   login_required (Some ''admin'') f st = f st"
  by (auto simp: login_required_def)

lemma delete_mahasiswa_body_prefix:
  "delete_mahasiswa_body eng m st =
     (st\<lparr>db := apply_all (take (committed eng (delete_mahasiswa_cascade m) (db st))
                            (delete_mahasiswa_cascade m)) (db st),
         flashes := flashes st @
           [case raised eng (delete_mahasiswa_cascade m) (db st) of
              None \<Rightarrow> ''Mahasiswa dihapus''
            | Some x \<Rightarrow> ''Gagal hapus: '' @ str x]\<rparr>,
      Redirect Ep_manage_mahasiswa)"
  by (auto simp add: delete_mahasiswa_body_def delete_mahasiswa_cascade_def execute_db_def Let_def
        flash_def simp del: exec.simps split: sum.splits option.splits)

lemma unenroll_body_prefix:
  "unenroll_body eng k i st =
     (case raised eng (unenroll_cascade i) (db st) of
        None \<Rightarrow> (st\<lparr>db := apply_all (unenroll_cascade i) (db st),
                    flashes := flashes st @ [''Mahasiswa dikeluarkan dari kelas'']\<rparr>,
                 Redirect (Ep_view_kelas k))
      | Some x \<Rightarrow>
          (st\<lparr>db := apply_all (take (committed eng (unenroll_cascade i) (db st))
                                 (unenroll_cascade i)) (db st)\<rparr>,
           Raised x))"
  by (auto simp add: unenroll_body_def unenroll_cascade_def execute_db_def flash_def
        simp del: exec.simps split: sum.splits option.splits)

lemma committed_all:
  "raised eng qs d = None \<longleftrightarrow> committed eng qs d = length qs"
proof (induction qs arbitrary: d)
  case Nil
  show ?case by simp
next
  case (Cons q qs)
  show ?case
  proof (cases "execute_db eng q d")
    case (Inl x)
    then show ?thesis by simp
  next
    case (Inr d')
    then show ?thesis using Cons.IH [of d'] by simp
  qed
qed

lemma committed_le: "committed eng qs d \<le> length qs"
proof (induction qs arbitrary: d)
  case Nil
  show ?case by simp
next
  case (Cons q qs)
  show ?case
  proof (cases "execute_db eng q d")
    case (Inl x)
    then show ?thesis by simp
  next
    case (Inr d')
    then show ?thesis using Cons.IH [of d'] by simp
  qed
qed

lemma filter_other:
  "j \<noteq> i \<Longrightarrow> filter (\<lambda>x. f x = j) (filter (\<lambda>x. f x \<noteq> i) xs) = filter (\<lambda>x. f x = j) xs"
  by (induction xs) auto

lemma filter_same:
  "filter (\<lambda>x. f x = i) (filter (\<lambda>x. f x \<noteq> i) xs) = []"
  by (induction xs) auto

lemma filter_notin:
  "filter (\<lambda>x. f x = i) (filter (\<lambda>x. f x \<notin> S) xs) =
     (if i \<in> S then [] else filter (\<lambda>x. f x = i) xs)"
  by (induction xs) auto

text \<open>
  C3. For an administrator and a student id SQLite can bind (every id a stored row has),
  delete_mahasiswa with a fault-free engine leaves: the nilai table without exactly the
  rows whose enrollment was one of the student's, the enroll table without exactly the
  student's rows, the mahasiswa and users tables without exactly the rows with the
  student's id, and everything else as it was; "Mahasiswa dihapus" is flashed. The
  deletes run in the order Grade rows, Enrollment rows, StudentProfile, Account: an
  engine that raises on one of the four statements leaves exactly the deletes before it
  applied. The enrollments of every other student, and the Grade rows of every
  enrollment that was not the student's, are the same lists as before. For an id outside
  the range the first statement raises OverflowError: nothing is deleted and the failure
  is flashed.
\<close>

theorem delete_mahasiswa_removes_student:
  assumes "user_id (session st) \<noteq> None" and "role (session st) = Some ''admin''"
  shows "(sqlite_int mhs_id \<longrightarrow>
          (\<exists>N E M U.
             N = filter (\<lambda>n. n_enroll_id n \<notin> set (enrollments_of (db st) mhs_id)) (nilai (db st)) \<and>
             E = filter (\<lambda>e. e_mahasiswa_id e \<noteq> mhs_id) (enroll (db st)) \<and>
             M = filter (\<lambda>m. m_id m \<noteq> mhs_id) (mahasiswa (db st)) \<and>
             U = filter (\<lambda>u. u_id u \<noteq> mhs_id) (users (db st)) \<and>
             delete_mahasiswa no_fault mhs_id st =
               (st\<lparr>db := (db st)\<lparr>users := U, mahasiswa := M, enroll := E, nilai := N\<rparr>,
                   flashes := flashes st @ [''Mahasiswa dihapus'']\<rparr>,
                Redirect Ep_manage_mahasiswa) \<and>
             delete_mahasiswa (fails_on (Delete_nilai_of_mahasiswa mhs_id) msg) mhs_id st =
               (st\<lparr>flashes := flashes st @ [''Gagal hapus: '' @ msg]\<rparr>,
                Redirect Ep_manage_mahasiswa) \<and>
             delete_mahasiswa (fails_on (Delete_enroll_of_mahasiswa mhs_id) msg) mhs_id st =
               (st\<lparr>db := (db st)\<lparr>nilai := N\<rparr>,
                   flashes := flashes st @ [''Gagal hapus: '' @ msg]\<rparr>,
                Redirect Ep_manage_mahasiswa) \<and>
             delete_mahasiswa (fails_on (Delete_mahasiswa mhs_id) msg) mhs_id st =
               (st\<lparr>db := (db st)\<lparr>enroll := E, nilai := N\<rparr>,
                   flashes := flashes st @ [''Gagal hapus: '' @ msg]\<rparr>,
                Redirect Ep_manage_mahasiswa) \<and>
             delete_mahasiswa (fails_on (Delete_users mhs_id) msg) mhs_id st =
               (st\<lparr>db := (db st)\<lparr>mahasiswa := M, enroll := E, nilai := N\<rparr>,
                   flashes := flashes st @ [''Gagal hapus: '' @ msg]\<rparr>,
                Redirect Ep_manage_mahasiswa) \<and>
             map e_id (filter (\<lambda>e. e_mahasiswa_id e = mhs_id) E) = [] \<and>
             (\<forall>other. other \<noteq> mhs_id \<longrightarrow>
                filter (\<lambda>e. e_mahasiswa_id e = other) E =
                filter (\<lambda>e. e_mahasiswa_id e = other) (enroll (db st))) \<and>
             (\<forall>i. filter (\<lambda>n. n_enroll_id n = i) N =
                (if i \<in> set (enrollments_of (db st) mhs_id) then [] else grade_rows (db st) i)))) \<and>
         (\<not> sqlite_int mhs_id \<longrightarrow>
            delete_mahasiswa eng mhs_id st =
              (st\<lparr>flashes := flashes st @
                   [''Gagal hapus: Python int too large to convert to SQLite INTEGER'']\<rparr>,
               Redirect Ep_manage_mahasiswa))"
proof -
  let ?N = "filter (\<lambda>n. n_enroll_id n \<notin> set (enrollments_of (db st) mhs_id)) (nilai (db st))"
  let ?E = "filter (\<lambda>e. e_mahasiswa_id e \<noteq> mhs_id) (enroll (db st))"
  let ?M = "filter (\<lambda>m. m_id m \<noteq> mhs_id) (mahasiswa (db st))"
  let ?U = "filter (\<lambda>u. u_id u \<noteq> mhs_id) (users (db st))"
  have dm: "delete_mahasiswa eng mhs_id st = delete_mahasiswa_body eng mhs_id st" for eng
    unfolding delete_mahasiswa_def by (rule route_admin [OF assms])
  have ok: "delete_mahasiswa no_fault mhs_id st =
               (st\<lparr>db := (db st)\<lparr>users := ?U, mahasiswa := ?M, enroll := ?E, nilai := ?N\<rparr>,
                   flashes := flashes st @ [''Mahasiswa dihapus'']\<rparr>,
                Redirect Ep_manage_mahasiswa)" if "sqlite_int mhs_id"
    unfolding dm using that
    by (simp add: delete_mahasiswa_body_def execute_db_def no_fault_def flash_def
          enrollments_of_def)
  have f1: "delete_mahasiswa (fails_on (Delete_nilai_of_mahasiswa mhs_id) msg) mhs_id st =
               (st\<lparr>flashes := flashes st @ [''Gagal hapus: '' @ msg]\<rparr>,
                Redirect Ep_manage_mahasiswa)" if "sqlite_int mhs_id"
    unfolding dm using that
    by (simp add: delete_mahasiswa_body_def execute_db_def fails_on_def flash_def)
  have f2: "delete_mahasiswa (fails_on (Delete_enroll_of_mahasiswa mhs_id) msg) mhs_id st =
               (st\<lparr>db := (db st)\<lparr>nilai := ?N\<rparr>,
                   flashes := flashes st @ [''Gagal hapus: '' @ msg]\<rparr>,
                Redirect Ep_manage_mahasiswa)" if "sqlite_int mhs_id"
    unfolding dm using that
    by (simp add: delete_mahasiswa_body_def execute_db_def fails_on_def flash_def
          enrollments_of_def)
  have f3: "delete_mahasiswa (fails_on (Delete_mahasiswa mhs_id) msg) mhs_id st =
               (st\<lparr>db := (db st)\<lparr>enroll := ?E, nilai := ?N\<rparr>,
                   flashes := flashes st @ [''Gagal hapus: '' @ msg]\<rparr>,
                Redirect Ep_manage_mahasiswa)" if "sqlite_int mhs_id"
    unfolding dm using that
    by (simp add: delete_mahasiswa_body_def execute_db_def fails_on_def flash_def
          enrollments_of_def)
  have f4: "delete_mahasiswa (fails_on (Delete_users mhs_id) msg) mhs_id st =
               (st\<lparr>db := (db st)\<lparr>mahasiswa := ?M, enroll := ?E, nilai := ?N\<rparr>,
                   flashes := flashes st @ [''Gagal hapus: '' @ msg]\<rparr>,
                Redirect Ep_manage_mahasiswa)" if "sqlite_int mhs_id"
    unfolding dm using that
    by (simp add: delete_mahasiswa_body_def execute_db_def fails_on_def flash_def
          enrollments_of_def)
  have gone: "map e_id (filter (\<lambda>e. e_mahasiswa_id e = mhs_id) ?E) = []"
    by (simp add: filter_same)
  have kept: "filter (\<lambda>e. e_mahasiswa_id e = other) ?E =
              filter (\<lambda>e. e_mahasiswa_id e = other) (enroll (db st))" if "other \<noteq> mhs_id" for other
    using that by (rule filter_other)
  have g: "filter (\<lambda>n. n_enroll_id n = i) ?N =
      (if i \<in> set (enrollments_of (db st) mhs_id) then [] else grade_rows (db st) i)" for i
    unfolding grade_rows_def by (rule filter_notin)
  have ov: "delete_mahasiswa eng mhs_id st =
              (st\<lparr>flashes := flashes st @
                   [''Gagal hapus: Python int too large to convert to SQLite INTEGER'']\<rparr>,
               Redirect Ep_manage_mahasiswa)" if "\<not> sqlite_int mhs_id"
    unfolding dm using that
    by (simp add: delete_mahasiswa_body_def execute_db_def flash_def)
  from ok f1 f2 f3 f4 gone kept g ov show ?thesis by blast
qed

theorem delete_mahasiswa_removes_student_witness:
  "user_id admin_session \<noteq> None \<and> role admin_session = Some ''admin'' \<and> sqlite_int 3 \<and>
   snd (delete_mahasiswa no_fault 3 (demo_state admin_session)) = Redirect Ep_manage_mahasiswa \<and>
   flashes (fst (delete_mahasiswa no_fault 3 (demo_state admin_session))) = [''Mahasiswa dihapus''] \<and>
   nilai (db (fst (delete_mahasiswa no_fault 3 (demo_state admin_session)))) =
     [\<lparr>n_id = 2, n_enroll_id = 2, n_nilai_angka = Some (Finite 70)\<rparr>] \<and>
   enroll (db (fst (delete_mahasiswa no_fault 3 (demo_state admin_session)))) =
     [\<lparr>e_id = 2, e_mahasiswa_id = 5, e_kelas_id = 1\<rparr>] \<and>
   map m_id (mahasiswa (db (fst (delete_mahasiswa no_fault 3 (demo_state admin_session))))) = [5] \<and>
   map u_id (users (db (fst (delete_mahasiswa no_fault 3 (demo_state admin_session))))) = [1, 2, 4, 5] \<and>
   kelas (db (fst (delete_mahasiswa no_fault 3 (demo_state admin_session)))) = kelas demo_db \<and>
   db (fst (delete_mahasiswa (fails_on (Delete_enroll_of_mahasiswa 3) ''disk I/O error'') 3
              (demo_state admin_session))) =
     demo_db\<lparr>nilai := [\<lparr>n_id = 2, n_enroll_id = 2, n_nilai_angka = Some (Finite 70)\<rparr>]\<rparr> \<and>
   flashes (fst (delete_mahasiswa (fails_on (Delete_enroll_of_mahasiswa 3) ''disk I/O error'') 3
              (demo_state admin_session))) = [''Gagal hapus: disk I/O error''] \<and>
   \<not> sqlite_int 9223372036854775808 \<and>
   delete_mahasiswa no_fault 9223372036854775808 (demo_state admin_session) =
     (\<lparr>db = demo_db, session = admin_session,
       flashes = [''Gagal hapus: Python int too large to convert to SQLite INTEGER'']\<rparr>,
      Redirect Ep_manage_mahasiswa)"
  using delete_mahasiswa_removes_student [where st = "demo_state admin_session" and mhs_id = 3
          and msg = "''disk I/O error''"]
        delete_mahasiswa_removes_student [where st = "demo_state admin_session"
          and mhs_id = 9223372036854775808 and eng = no_fault]
  by (auto simp: demo_state_def demo_db_def admin_session_def enrollments_of_def sqlite_int_def)

text \<open>
  C4, as the code has it. Neither cascade is a transaction: \<open>execute_db\<close> commits each
  statement. For every engine, the database a cascade leaves is the one after exactly
  the statements that preceded the first one to raise; those stay applied and the later
  ones are not run. All statements are applied exactly when none raises. delete_mahasiswa
  catches the failure, flashes "Gagal hapus: " with the cause and redirects to the student
  list; unenroll does not catch it and the request ends with the raised error.
\<close>

theorem cascades_commit_each_statement:
  assumes "user_id (session st) \<noteq> None" and "role (session st) = Some ''admin''"
  shows "db (fst (delete_mahasiswa eng mhs_id st)) =
           apply_all (take (committed eng (delete_mahasiswa_cascade mhs_id) (db st))
                        (delete_mahasiswa_cascade mhs_id)) (db st) \<and>
         snd (delete_mahasiswa eng mhs_id st) = Redirect Ep_manage_mahasiswa \<and>
         flashes (fst (delete_mahasiswa eng mhs_id st)) = flashes st @
           [case raised eng (delete_mahasiswa_cascade mhs_id) (db st) of
              None \<Rightarrow> ''Mahasiswa dihapus'' | Some x \<Rightarrow> ''Gagal hapus: '' @ str x] \<and>
         db (fst (unenroll eng kelas_id enroll_id st)) =
           apply_all (take (committed eng (unenroll_cascade enroll_id) (db st))
                        (unenroll_cascade enroll_id)) (db st) \<and>
         snd (unenroll eng kelas_id enroll_id st) =
           (case raised eng (unenroll_cascade enroll_id) (db st) of
              None \<Rightarrow> Redirect (Ep_view_kelas kelas_id)
            | Some x \<Rightarrow> Raised x) \<and>
         (committed eng (delete_mahasiswa_cascade mhs_id) (db st) = 4) =
           (raised eng (delete_mahasiswa_cascade mhs_id) (db st) = None) \<and>
         (committed eng (unenroll_cascade enroll_id) (db st) = 2) =
           (raised eng (unenroll_cascade enroll_id) (db st) = None)"
proof -
  have dm: "delete_mahasiswa eng mhs_id st = delete_mahasiswa_body eng mhs_id st"
    unfolding delete_mahasiswa_def by (rule route_admin [OF assms])
  have un: "unenroll eng kelas_id enroll_id st = unenroll_body eng kelas_id enroll_id st"
    unfolding unenroll_def by (rule route_admin [OF assms])
  have len4: "length (delete_mahasiswa_cascade mhs_id) = 4"
    by (simp add: delete_mahasiswa_cascade_def)
  have len2: "length (unenroll_cascade enroll_id) = 2"
    by (simp add: unenroll_cascade_def)
  have c1: "(committed eng (delete_mahasiswa_cascade mhs_id) (db st) = 4) =
           (raised eng (delete_mahasiswa_cascade mhs_id) (db st) = None)"
    by (simp only: committed_all len4)
  have c2: "(committed eng (unenroll_cascade enroll_id) (db st) = 2) =
           (raised eng (unenroll_cascade enroll_id) (db st) = None)"
    by (simp only: committed_all len2)
  have t2: "take 2 (unenroll_cascade enroll_id) = unenroll_cascade enroll_id"
    by (simp add: unenroll_cascade_def)
  have u: "db (fst (unenroll_body eng kelas_id enroll_id st)) =
           apply_all (take (committed eng (unenroll_cascade enroll_id) (db st))
                        (unenroll_cascade enroll_id)) (db st)"
    "snd (unenroll_body eng kelas_id enroll_id st) =
           (case raised eng (unenroll_cascade enroll_id) (db st) of
              None \<Rightarrow> Redirect (Ep_view_kelas kelas_id)
            | Some x \<Rightarrow> Raised x)"
    using c2 t2 by (auto simp: unenroll_body_prefix split: option.splits)
  show ?thesis
    unfolding dm un using u c1 c2 by (simp add: delete_mahasiswa_body_prefix)
qed

theorem cascades_commit_each_statement_witness:
  "user_id admin_session \<noteq> None \<and> role admin_session = Some ''admin'' \<and>
   committed (fails_on (Delete_mahasiswa 3) ''disk I/O error'') (delete_mahasiswa_cascade 3) demo_db = 2 \<and>
   db (fst (delete_mahasiswa (fails_on (Delete_mahasiswa 3) ''disk I/O error'') 3
              (demo_state admin_session))) =
     after (Delete_enroll_of_mahasiswa 3) (after (Delete_nilai_of_mahasiswa 3) demo_db) \<and>
   flashes (fst (delete_mahasiswa (fails_on (Delete_mahasiswa 3) ''disk I/O error'') 3
              (demo_state admin_session))) = [''Gagal hapus: disk I/O error''] \<and>
   committed (fails_on (Delete_enroll 1) ''database is locked'') (unenroll_cascade 1) demo_db = 1 \<and>
   db (fst (unenroll (fails_on (Delete_enroll 1) ''database is locked'') 1 1
              (demo_state admin_session))) = after (Delete_nilai_of_enroll 1) demo_db \<and>
   snd (unenroll (fails_on (Delete_enroll 1) ''database is locked'') 1 1
              (demo_state admin_session)) = Raised (DatabaseError ''database is locked'')"
  using cascades_commit_each_statement [where st = "demo_state admin_session" and mhs_id = 3
          and eng = "fails_on (Delete_mahasiswa 3) ''disk I/O error''"
          and kelas_id = 1 and enroll_id = 1]
        cascades_commit_each_statement [where st = "demo_state admin_session" and mhs_id = 3
          and eng = "fails_on (Delete_enroll 1) ''database is locked''"
          and kelas_id = 1 and enroll_id = 1]
  by (simp add: demo_state_def admin_session_def fails_on_def delete_mahasiswa_cascade_def
        unenroll_cascade_def execute_db_def after_def sqlite_int_def)

text \<open>
  The engine raises on the third statement of the cascade for student 3: the student's
  grade and enrollments are deleted and stay so, the profile and the account remain.
  In unenroll of enrollment 1, with the engine raising on the second statement, the grade
  is deleted and the enrollment remains.
\<close>

theorem cascade_not_atomic_counterexample:
  "grades_of (db (fst (delete_mahasiswa (fails_on (Delete_mahasiswa 3) ''disk I/O error'') 3
                         (demo_state admin_session)))) 1 = [] \<and>
   enrollments_of (db (fst (delete_mahasiswa (fails_on (Delete_mahasiswa 3) ''disk I/O error'') 3
                         (demo_state admin_session)))) 3 = [] \<and>
   map m_id (mahasiswa (db (fst (delete_mahasiswa (fails_on (Delete_mahasiswa 3) ''disk I/O error'') 3
                         (demo_state admin_session))))) = [3, 5] \<and>
   map u_id (users (db (fst (delete_mahasiswa (fails_on (Delete_mahasiswa 3) ''disk I/O error'') 3
                         (demo_state admin_session))))) = [1, 2, 3, 4, 5] \<and>
   grades_of demo_db 1 = [Some (Finite 85)] \<and> enrollments_of demo_db 3 = [1, 3] \<and>
   grades_of (db (fst (unenroll (fails_on (Delete_enroll 1) ''database is locked'') 1 1
                         (demo_state admin_session)))) 1 = [] \<and>
   map e_id (enroll (db (fst (unenroll (fails_on (Delete_enroll 1) ''database is locked'') 1 1
                         (demo_state admin_session))))) = [1, 2, 3]"
  by (simp add: demo_state_def demo_db_def admin_session_def fails_on_def
        delete_mahasiswa_def unenroll_def login_required_def delete_mahasiswa_body_def
        unenroll_body_def execute_db_def grades_of_def grade_rows_def enrollments_of_def flash_def
        sqlite_int_def)

text \<open>
  C5. For an administrator and an enrollment id SQLite can bind (every id a stored row
  has), unenroll with a fault-free engine leaves the nilai table without exactly the rows
  of the enrollment and the enroll table without exactly the row with its id, every other
  table as it was, and flashes "Mahasiswa dikeluarkan dari kelas". The Grade rows are
  deleted first and the Enrollment row second: an engine that raises on the first
  statement leaves the database untouched, one that raises on the second leaves the Grade
  rows deleted and the Enrollment row in place; in both cases the error is raised out of
  the view. For an id outside the range the first statement raises OverflowError and
  nothing is deleted. For every engine and every id, the Grade rows and the Enrollment row
  of every other enrollment id are the same as before.
\<close>

theorem unenroll_removes_enrollment:
  assumes "user_id (session st) \<noteq> None" and "role (session st) = Some ''admin''"
  shows "(sqlite_int enroll_id \<longrightarrow>
          (\<exists>N E.
             N = filter (\<lambda>n. n_enroll_id n \<noteq> enroll_id) (nilai (db st)) \<and>
             E = filter (\<lambda>e. e_id e \<noteq> enroll_id) (enroll (db st)) \<and>
             unenroll no_fault kelas_id enroll_id st =
               (st\<lparr>db := (db st)\<lparr>enroll := E, nilai := N\<rparr>,
                   flashes := flashes st @ [''Mahasiswa dikeluarkan dari kelas'']\<rparr>,
                Redirect (Ep_view_kelas kelas_id)) \<and>
             unenroll (fails_on (Delete_nilai_of_enroll enroll_id) msg) kelas_id enroll_id st =
               (st, Raised (DatabaseError msg)) \<and>
             unenroll (fails_on (Delete_enroll enroll_id) msg) kelas_id enroll_id st =
               (st\<lparr>db := (db st)\<lparr>nilai := N\<rparr>\<rparr>, Raised (DatabaseError msg)) \<and>
             filter (\<lambda>n. n_enroll_id n = enroll_id) N = [] \<and>
             enroll_id \<notin> set (map e_id E))) \<and>
         (\<not> sqlite_int enroll_id \<longrightarrow>
            unenroll eng kelas_id enroll_id st = (st, Raised OverflowError)) \<and>
         (\<forall>j. j \<noteq> enroll_id \<longrightarrow>
            grade_rows (db (fst (unenroll eng kelas_id enroll_id st))) j = grade_rows (db st) j \<and>
            filter (\<lambda>e. e_id e = j) (enroll (db (fst (unenroll eng kelas_id enroll_id st)))) =
              filter (\<lambda>e. e_id e = j) (enroll (db st)))"
proof -
  let ?N = "filter (\<lambda>n. n_enroll_id n \<noteq> enroll_id) (nilai (db st))"
  let ?E = "filter (\<lambda>e. e_id e \<noteq> enroll_id) (enroll (db st))"
  have un: "unenroll eng kelas_id enroll_id st = unenroll_body eng kelas_id enroll_id st" for eng
    unfolding unenroll_def by (rule route_admin [OF assms])
  have ok: "unenroll no_fault kelas_id enroll_id st =
               (st\<lparr>db := (db st)\<lparr>enroll := ?E, nilai := ?N\<rparr>,
                   flashes := flashes st @ [''Mahasiswa dikeluarkan dari kelas'']\<rparr>,
                Redirect (Ep_view_kelas kelas_id))" if "sqlite_int enroll_id"
    unfolding un using that
    by (simp add: unenroll_body_def execute_db_def no_fault_def flash_def)
  have f1: "unenroll (fails_on (Delete_nilai_of_enroll enroll_id) msg) kelas_id enroll_id st =
               (st, Raised (DatabaseError msg))" if "sqlite_int enroll_id"
    unfolding un using that
    by (simp add: unenroll_body_def execute_db_def fails_on_def)
  have f2: "unenroll (fails_on (Delete_enroll enroll_id) msg) kelas_id enroll_id st =
               (st\<lparr>db := (db st)\<lparr>nilai := ?N\<rparr>\<rparr>, Raised (DatabaseError msg))"
    if "sqlite_int enroll_id"
    unfolding un using that
    by (simp add: unenroll_body_def execute_db_def fails_on_def)
  have gone: "filter (\<lambda>n. n_enroll_id n = enroll_id) ?N = []" "enroll_id \<notin> set (map e_id ?E)"
    by (auto simp: filter_same)
  have ov: "unenroll eng kelas_id enroll_id st = (st, Raised OverflowError)"
    if "\<not> sqlite_int enroll_id"
    unfolding un using that by (simp add: unenroll_body_def execute_db_def)
  have frame: "grade_rows (db (fst (unenroll eng kelas_id enroll_id st))) j = grade_rows (db st) j \<and>
            filter (\<lambda>e. e_id e = j) (enroll (db (fst (unenroll eng kelas_id enroll_id st)))) =
              filter (\<lambda>e. e_id e = j) (enroll (db st))" if "j \<noteq> enroll_id" for j
    unfolding un using that
    by (auto simp: unenroll_body_def execute_db_def grade_rows_def flash_def
          split: option.splits intro!: filter_cong)
  from ok f1 f2 gone ov frame show ?thesis by blast
qed

theorem unenroll_removes_enrollment_witness:
  "user_id admin_session \<noteq> None \<and> role admin_session = Some ''admin'' \<and> sqlite_int 1 \<and>
   snd (unenroll no_fault 1 1 (demo_state admin_session)) = Redirect (Ep_view_kelas 1) \<and>
   flashes (fst (unenroll no_fault 1 1 (demo_state admin_session))) =
     [''Mahasiswa dikeluarkan dari kelas''] \<and>
   nilai (db (fst (unenroll no_fault 1 1 (demo_state admin_session)))) =
     [\<lparr>n_id = 2, n_enroll_id = 2, n_nilai_angka = Some (Finite 70)\<rparr>] \<and>
   enroll (db (fst (unenroll no_fault 1 1 (demo_state admin_session)))) =
     [\<lparr>e_id = 2, e_mahasiswa_id = 5, e_kelas_id = 1\<rparr>,
      \<lparr>e_id = 3, e_mahasiswa_id = 3, e_kelas_id = 2\<rparr>] \<and>
   unenroll (fails_on (Delete_enroll 1) ''database is locked'') 1 1 (demo_state admin_session) =
     (\<lparr>db = demo_db\<lparr>nilai := [\<lparr>n_id = 2, n_enroll_id = 2, n_nilai_angka = Some (Finite 70)\<rparr>]\<rparr>,
       session = admin_session, flashes = []\<rparr>,
      Raised (DatabaseError ''database is locked'')) \<and>
   grade_rows (db (fst (unenroll (fails_on (Delete_enroll 1) ''database is locked'') 1 1
       (demo_state admin_session)))) 2 = grade_rows demo_db 2 \<and>
   \<not> sqlite_int 9223372036854775808 \<and>
   unenroll no_fault 1 9223372036854775808 (demo_state admin_session) =
     (demo_state admin_session, Raised OverflowError)"
  using unenroll_removes_enrollment [where st = "demo_state admin_session" and kelas_id = 1
          and enroll_id = 1 and eng = "fails_on (Delete_enroll 1) ''database is locked''"
          and msg = "''database is locked''"]
        unenroll_removes_enrollment [where st = "demo_state admin_session" and kelas_id = 1
          and enroll_id = 9223372036854775808 and eng = no_fault]
  by (auto simp: demo_state_def demo_db_def admin_session_def sqlite_int_def)

section \<open>Login, enrollment and seeding\<close>

lemma user_lookup:
  assumes "distinct (map u_username (users d))" "u \<in> set (users d)"
  shows "query_db_one (filter (\<lambda>x. u_username x = u_username u) (users d)) = Some u"
proof -
  have "x = y" if "x \<in> set (filter (\<lambda>x. u_username x = u_username u) (users d))"
    "y \<in> set (filter (\<lambda>x. u_username x = u_username u) (users d))" for x y
    using that inj_ids [OF assms(1), of x y] by simp
  then show ?thesis
    using first_unique [of "filter (\<lambda>x. u_username x = u_username u) (users d)" u] assms(2)
    by simp
qed

lemma user_absent:
  assumes "n \<notin> set (map u_username (users d))"
  shows "query_db_one (filter (\<lambda>x. u_username x = n) (users d)) = None"
proof -
  have "filter (\<lambda>x. u_username x = n) (users d) = []"
    using assms by (auto simp: filter_empty_conv)
  then show ?thesis by (simp add: query_db_one_def)
qed

text \<open>
  C6. Two failed login attempts on the same state, one with the username of an existing
  account and a password the digest check rejects, one with a username no account has
  (usernames are UNIQUE): each gets the login page again with the one message
  "Login gagal: username atau password salah" appended to the flashed messages, and
  nothing else changes: the answers and the states left are the same, the session and the
  database are as before.
\<close>

theorem login_failure_is_generic:
  assumes uniq: "distinct (map u_username (users (db st)))"
    and req1: "req_method ra = POST" "form ra ''username'' = Some (u_username u)"
            "form ra ''password'' = Some pa"
    and req2: "req_method rb = POST" "form rb ''username'' = Some nb" "form rb ''password'' = Some pb"
    and wrong: "u \<in> set (users (db st))" "\<not> check_password_hash (u_password_hash u) pa"
    and absent: "nb \<notin> set (map u_username (users (db st)))"
  shows "login check_password_hash ra st =
           (st\<lparr>flashes := flashes st @ [''Login gagal: username atau password salah'']\<rparr>,
            Render Login_page) \<and>
         login check_password_hash rb st =
           (st\<lparr>flashes := flashes st @ [''Login gagal: username atau password salah'']\<rparr>,
            Render Login_page) \<and>
         login check_password_hash rb st = login check_password_hash ra st \<and>
         session (fst (login check_password_hash ra st)) = session st \<and>
         session (fst (login check_password_hash rb st)) = session st \<and>
         db (fst (login check_password_hash ra st)) = db st \<and>
         db (fst (login check_password_hash rb st)) = db st"
proof -
  have a: "login check_password_hash ra st =
           (st\<lparr>flashes := flashes st @ [''Login gagal: username atau password salah'']\<rparr>,
            Render Login_page)"
    using req1 wrong(2) user_lookup [OF uniq wrong(1)] by (simp add: login_def flash_def)
  have b: "login check_password_hash rb st =
           (st\<lparr>flashes := flashes st @ [''Login gagal: username atau password salah'']\<rparr>,
            Render Login_page)"
    using req2 user_absent [OF absent] by (simp add: login_def flash_def)
  from a b show ?thesis by simp
qed

theorem login_failure_is_generic_witness:
  "distinct (map u_username (users demo_db)) \<and>
   \<not> demo_check ''#admin123'' ''wrong'' \<and>
   ''nobody'' \<notin> set (map u_username (users demo_db)) \<and>
   login demo_check (post [(''username'', ''admin''), (''password'', ''wrong'')]) (demo_state no_session)
     = (\<lparr>db = demo_db, session = no_session,
         flashes = [''Login gagal: username atau password salah'']\<rparr>, Render Login_page) \<and>
   login demo_check (post [(''username'', ''nobody''), (''password'', ''admin123'')]) (demo_state no_session)
     = (\<lparr>db = demo_db, session = no_session,
         flashes = [''Login gagal: username atau password salah'']\<rparr>, Render Login_page)"
  using login_failure_is_generic [where st = "demo_state no_session"
          and ra = "post [(''username'', ''admin''), (''password'', ''wrong'')]"
          and rb = "post [(''username'', ''nobody''), (''password'', ''admin123'')]"
          and u = "\<lparr>u_id = 1, u_username = ''admin'', u_password_hash = ''#admin123'',
                    u_role = ''admin'', u_full_name = ''Administrator''\<rparr>"
          and pa = "''wrong''" and nb = "''nobody''" and pb = "''admin123''"
          and check_password_hash = demo_check]
  by (simp add: demo_state_def demo_db_def post_def demo_check_def demo_hash_def)

text \<open>
  C10. For an administrator, a POST request (the only method the route admits), a student
  id \<open>int\<close> accepts, ids SQLite can bind and an engine that raises nothing (so the
  table has not used its largest id),
  enroll_mahasiswa appends one Enrollment row for the student and the class section,
  with an id no row of the table has, whatever the table holds, and flashes
  "Mahasiswa di-enroll ke kelas": the number of rows for that student and class section
  grows by one, also when it was not zero. When one of the two ids is outside the 64-bit
  range the statement raises OverflowError, which the view does not catch, and no row is
  inserted.
\<close>

theorem enroll_inserts_unconditionally:
  assumes "user_id (session st) \<noteq> None" and "role (session st) = Some ''admin''"
    and "req_method req = POST"
    and "form req ''mahasiswa_id'' = Some s" and "py_int s = Some mahasiswa_id"
  shows "(sqlite_int mahasiswa_id \<and> sqlite_int kelas_id \<longrightarrow>
          (\<exists>new. new \<notin> set (map e_id (enroll (db st))) \<and>
             enroll_mahasiswa py_int no_fault req kelas_id st =
               (st\<lparr>db := (db st)\<lparr>enroll := enroll (db st) @
                          [\<lparr>e_id = new, e_mahasiswa_id = mahasiswa_id, e_kelas_id = kelas_id\<rparr>],
                        enroll_seq := new\<rparr>,
                   flashes := flashes st @ [''Mahasiswa di-enroll ke kelas'']\<rparr>,
                Redirect (Ep_view_kelas kelas_id)) \<and>
             length (filter (\<lambda>e. e_mahasiswa_id e = mahasiswa_id \<and> e_kelas_id e = kelas_id)
                       (enroll (db (fst (enroll_mahasiswa py_int no_fault req kelas_id st))))) =
               Suc (length (filter (\<lambda>e. e_mahasiswa_id e = mahasiswa_id \<and> e_kelas_id e = kelas_id)
                       (enroll (db st)))))) \<and>
         (\<not> sqlite_int mahasiswa_id \<or> \<not> sqlite_int kelas_id \<longrightarrow>
            enroll_mahasiswa py_int eng req kelas_id st = (st, Raised OverflowError))"
proof -
  let ?new = "autoincrement (enroll_seq (db st)) (map e_id (enroll (db st)))"
  have en: "enroll_mahasiswa py_int eng req kelas_id st =
      enroll_mahasiswa_body py_int eng req kelas_id st" for eng
    unfolding enroll_mahasiswa_def by (auto simp: login_required_def assms(1,2))
  have r: "enroll_mahasiswa py_int no_fault req kelas_id st =
               (st\<lparr>db := (db st)\<lparr>enroll := enroll (db st) @
                          [\<lparr>e_id = ?new, e_mahasiswa_id = mahasiswa_id, e_kelas_id = kelas_id\<rparr>],
                        enroll_seq := ?new\<rparr>,
                   flashes := flashes st @ [''Mahasiswa di-enroll ke kelas'']\<rparr>,
                Redirect (Ep_view_kelas kelas_id))"
    if "sqlite_int mahasiswa_id" "sqlite_int kelas_id"
    unfolding en using assms(4,5) that
    by (simp add: enroll_mahasiswa_body_def execute_db_def no_fault_def insert_enroll_def Let_def
          flash_def)
  have f: "?new \<notin> set (map e_id (enroll (db st)))" by (rule autoincrement_fresh)
  have c: "length (filter (\<lambda>e. e_mahasiswa_id e = mahasiswa_id \<and> e_kelas_id e = kelas_id)
                     (enroll (db (fst (enroll_mahasiswa py_int no_fault req kelas_id st))))) =
             Suc (length (filter (\<lambda>e. e_mahasiswa_id e = mahasiswa_id \<and> e_kelas_id e = kelas_id)
                     (enroll (db st))))"
    if "sqlite_int mahasiswa_id" "sqlite_int kelas_id"
    unfolding r [OF that] by simp
  have ov: "enroll_mahasiswa py_int eng req kelas_id st = (st, Raised OverflowError)"
    if "\<not> sqlite_int mahasiswa_id \<or> \<not> sqlite_int kelas_id"
    unfolding en using assms(4,5) that
    by (auto simp: enroll_mahasiswa_body_def execute_db_def insert_enroll_def)
  from r f c ov show ?thesis by blast
qed

theorem enroll_inserts_unconditionally_witness:
  "user_id admin_session \<noteq> None \<and> role admin_session = Some ''admin'' \<and>
   demo_int ''3'' = Some 3 \<and> sqlite_int 3 \<and> sqlite_int 1 \<and>
   filter (\<lambda>e. e_mahasiswa_id e = 3 \<and> e_kelas_id e = 1) (enroll demo_db) =
     [\<lparr>e_id = 1, e_mahasiswa_id = 3, e_kelas_id = 1\<rparr>] \<and>
   enroll_mahasiswa demo_int no_fault (post [(''mahasiswa_id'', ''3'')]) 1
       (demo_state admin_session) =
     (\<lparr>db = demo_db\<lparr>enroll := enroll demo_db @ [\<lparr>e_id = 4, e_mahasiswa_id = 3, e_kelas_id = 1\<rparr>],
                    enroll_seq := 4\<rparr>,
       session = admin_session, flashes = [''Mahasiswa di-enroll ke kelas'']\<rparr>,
      Redirect (Ep_view_kelas 1)) \<and>
   filter (\<lambda>e. e_mahasiswa_id e = 3 \<and> e_kelas_id e = 1)
     (enroll (db (fst (enroll_mahasiswa demo_int no_fault (post [(''mahasiswa_id'', ''3'')]) 1
                         (demo_state admin_session))))) =
     [\<lparr>e_id = 1, e_mahasiswa_id = 3, e_kelas_id = 1\<rparr>,
      \<lparr>e_id = 4, e_mahasiswa_id = 3, e_kelas_id = 1\<rparr>] \<and>
   demo_int ''9223372036854775808'' = Some 9223372036854775808 \<and>
   \<not> sqlite_int 9223372036854775808 \<and>
   enroll_mahasiswa demo_int no_fault (post [(''mahasiswa_id'', ''9223372036854775808'')]) 1
       (demo_state admin_session) = (demo_state admin_session, Raised OverflowError)"
  using enroll_inserts_unconditionally [where st = "demo_state admin_session"
          and req = "post [(''mahasiswa_id'', ''3'')]" and s = "''3''" and py_int = demo_int
          and mahasiswa_id = 3 and kelas_id = 1]
        enroll_inserts_unconditionally [where st = "demo_state admin_session"
          and req = "post [(''mahasiswa_id'', ''9223372036854775808'')]"
          and s = "''9223372036854775808''" and py_int = demo_int
          and mahasiswa_id = 9223372036854775808 and kelas_id = 1 and eng = no_fault]
  by (auto simp: demo_state_def demo_db_def admin_session_def post_def demo_int_def
        sqlite_int_def enroll_mahasiswa_def login_required_def enroll_mahasiswa_body_def
        execute_db_def no_fault_def insert_enroll_def autoincrement_def flash_def)

lemma init_db_fresh: "init_db g None = Inr (Some (seed_db g))"
  by (simp add: init_db_def seed_db_def empty_db_def and_then_def fetchone_0_def
        insert_users_def insert_dosen_def
        insert_mahasiswa_def insert_mata_kuliah_def insert_kelas_def insert_jadwal_def
        insert_enroll_def insert_nilai_def select_user_id_def query_db_one_def
        autoincrement_def sqlite_int_def sql_real_def Let_def)

text \<open>
  C8, as the code has it. When the database file exists init_db leaves it as it is. On
  the first run it creates exactly three accounts: admin (role admin, password admin123),
  dosen1 (role dosen, password dosen123) and mahasiswa1 (role mahasiswa, password
  mahasiswa123), each stored as the digest of its password, and one instructor profile,
  one student profile, one course, one class section, one schedule slot, one enrollment
  and one grade (85). With a digest check that accepts a password's own digest, each of
  the three logs in with its credentials.
\<close>

theorem init_db_seeds_once:
  "init_db generate_password_hash (Some d) = Inr (Some d) \<and>
   init_db generate_password_hash None = Inr (Some (seed_db generate_password_hash)) \<and>
   accounts_of (init_db generate_password_hash None) =
     [(''admin'', generate_password_hash ''admin123'', ''admin''),
      (''dosen1'', generate_password_hash ''dosen123'', ''dosen''),
      (''mahasiswa1'', generate_password_hash ''mahasiswa123'', ''mahasiswa'')] \<and>
   length (mata_kuliah (seed_db generate_password_hash)) = 1 \<and>
   length (kelas (seed_db generate_password_hash)) = 1 \<and>
   length (jadwal (seed_db generate_password_hash)) = 1 \<and>
   length (enroll (seed_db generate_password_hash)) = 1 \<and>
   length (nilai (seed_db generate_password_hash)) = 1 \<and>
   length (dosen (seed_db generate_password_hash)) = 1 \<and>
   length (mahasiswa (seed_db generate_password_hash)) = 1 \<and>
   ((\<forall>p. check_password_hash (generate_password_hash p) p) \<longrightarrow>
      login check_password_hash (post [(''username'', ''admin''), (''password'', ''admin123'')])
        \<lparr>db = seed_db generate_password_hash, session = no_session, flashes = []\<rparr> =
        (\<lparr>db = seed_db generate_password_hash, session = admin_session,
          flashes = [''Login berhasil'']\<rparr>, Redirect Ep_index) \<and>
      login check_password_hash (post [(''username'', ''dosen1''), (''password'', ''dosen123'')])
        \<lparr>db = seed_db generate_password_hash, session = no_session, flashes = []\<rparr> =
        (\<lparr>db = seed_db generate_password_hash, session = dosen1_session,
          flashes = [''Login berhasil'']\<rparr>, Redirect Ep_index) \<and>
      snd (login check_password_hash
             (post [(''username'', ''mahasiswa1''), (''password'', ''mahasiswa123'')])
             \<lparr>db = seed_db generate_password_hash, session = no_session, flashes = []\<rparr>) =
        Redirect Ep_index)"
proof -
  have a: "init_db generate_password_hash (Some d) = Inr (Some d)"
    by (simp add: init_db_def)
  have b: "init_db generate_password_hash None = Inr (Some (seed_db generate_password_hash))"
    by (rule init_db_fresh)
  have c: "accounts_of (init_db generate_password_hash None) =
     [(''admin'', generate_password_hash ''admin123'', ''admin''),
      (''dosen1'', generate_password_hash ''dosen123'', ''dosen''),
      (''mahasiswa1'', generate_password_hash ''mahasiswa123'', ''mahasiswa'')]"
    unfolding b by (simp add: accounts_of_def seed_db_def)
  have l: "length (mata_kuliah (seed_db generate_password_hash)) = 1"
   "length (kelas (seed_db generate_password_hash)) = 1"
   "length (jadwal (seed_db generate_password_hash)) = 1"
   "length (enroll (seed_db generate_password_hash)) = 1"
   "length (nilai (seed_db generate_password_hash)) = 1"
   "length (dosen (seed_db generate_password_hash)) = 1"
   "length (mahasiswa (seed_db generate_password_hash)) = 1"
    by (simp_all add: seed_db_def)
  have lg: "login check_password_hash (post [(''username'', ''admin''), (''password'', ''admin123'')])
        \<lparr>db = seed_db generate_password_hash, session = no_session, flashes = []\<rparr> =
        (\<lparr>db = seed_db generate_password_hash, session = admin_session,
          flashes = [''Login berhasil'']\<rparr>, Redirect Ep_index) \<and>
      login check_password_hash (post [(''username'', ''dosen1''), (''password'', ''dosen123'')])
        \<lparr>db = seed_db generate_password_hash, session = no_session, flashes = []\<rparr> =
        (\<lparr>db = seed_db generate_password_hash, session = dosen1_session,
          flashes = [''Login berhasil'']\<rparr>, Redirect Ep_index) \<and>
      snd (login check_password_hash
             (post [(''username'', ''mahasiswa1''), (''password'', ''mahasiswa123'')])
             \<lparr>db = seed_db generate_password_hash, session = no_session, flashes = []\<rparr>) =
        Redirect Ep_index"
    if "\<forall>p. check_password_hash (generate_password_hash p) p"
    using that
    by (simp add: login_def post_def seed_db_def query_db_one_def flash_def
          admin_session_def dosen1_session_def no_session_def)
  from a b c l lg show ?thesis by blast
qed

theorem init_db_seeds_once_witness:
  "init_db demo_hash (Some demo_db) = Inr (Some demo_db) \<and>
   accounts_of (init_db demo_hash None) =
     [(''admin'', ''#admin123'', ''admin''), (''dosen1'', ''#dosen123'', ''dosen''),
      (''mahasiswa1'', ''#mahasiswa123'', ''mahasiswa'')] \<and>
   demo_check (demo_hash ''admin123'') ''admin123'' \<and>
   snd (login demo_check (post [(''username'', ''admin''), (''password'', ''admin123'')])
        \<lparr>db = seed_db demo_hash, session = no_session, flashes = []\<rparr>) = Redirect Ep_index"
  using init_db_seeds_once [where generate_password_hash = demo_hash
          and check_password_hash = demo_check and d = demo_db]
  by (simp add: demo_check_def demo_hash_def accounts_of_def seed_db_def)

text \<open>
  The seeded accounts are admin, dosen1 and mahasiswa1: there is no account instructor1
  or student1, and a login as instructor1 with instructor123 fails.
\<close>

theorem seed_credentials_counterexample:
  "''instructor1'' \<notin> set (map fst (accounts_of (init_db demo_hash None))) \<and>
   ''student1'' \<notin> set (map fst (accounts_of (init_db demo_hash None))) \<and>
   map fst (accounts_of (init_db demo_hash None)) = [''admin'', ''dosen1'', ''mahasiswa1''] \<and>
   snd (login demo_check (post [(''username'', ''instructor1''), (''password'', ''instructor123'')])
        \<lparr>db = seed_db demo_hash, session = no_session, flashes = []\<rparr>) = Render Login_page"
  by (simp add: init_db_fresh accounts_of_def seed_db_def login_def post_def query_db_one_def
        flash_def)

section \<open>The hypotheses hold in the databases the program reaches\<close>

text \<open>
  The theorems above assume primary keys (C1, C2, C9), unique usernames (C6) and at most
  one Grade row for the enrollment (C2). All three hold in the seeded database and are
  kept by every statement the views send: an inserted row gets a fresh id (a 64-bit one
  as long as the table has not used its largest id, where the engine raises instead), the
  UPDATE keeps the ids, a DELETE only removes rows, a statement that raises changes
  nothing, and the views insert a Grade row only for an enrollment that has none.
\<close>

lemma update_keeps_ids:
  "map n_id (map (\<lambda>n. if n_enroll_id n = i then n\<lparr>n_nilai_angka := v\<rparr> else n) xs) = map n_id xs"
  by (induction xs) auto

lemma list_all_filter: "list_all P (map f xs) \<Longrightarrow> list_all P (map f (filter Q xs))"
  by (induction xs) auto

lemma primary_keys_seed: "primary_keys (seed_db g)"
  by (simp add: primary_keys_def seed_db_def sqlite_int_def)

lemma primary_keys_exec:
  assumes "primary_keys d"
    and "sqlite_int (autoincrement (enroll_seq d) (map e_id (enroll d)))"
    and "sqlite_int (autoincrement (nilai_seq d) (map n_id (nilai d)))"
  shows "primary_keys (after q d)"
proof (cases q)
  case (Insert_enroll m k)
  then show ?thesis
    using assms autoincrement_fresh [of "enroll_seq d" "map e_id (enroll d)"]
    by (simp add: primary_keys_def after_def insert_enroll_def Let_def)
next
  case (Insert_nilai i v)
  then show ?thesis
    using assms autoincrement_fresh [of "nilai_seq d" "map n_id (nilai d)"]
    by (simp add: primary_keys_def after_def insert_nilai_def Let_def)
next
  case (Update_nilai v i)
  then show ?thesis using assms(1)
    by (simp add: primary_keys_def after_def update_keeps_ids del: map_map)
qed (insert assms(1), simp_all add: primary_keys_def after_def distinct_map_filter list_all_filter)

lemma usernames_unique_seed: "distinct (map u_username (users (seed_db g)))"
  by (simp add: seed_db_def)

lemma usernames_unique_exec:
  "distinct (map u_username (users d)) \<Longrightarrow> distinct (map u_username (users (after q d)))"
  by (cases q)
     (simp_all add: after_def distinct_map_filter insert_enroll_def insert_nilai_def Let_def)

lemma one_grade_seed: "length (grade_rows (seed_db g) i) \<le> 1"
  by (simp add: grade_rows_def seed_db_def)

lemma one_grade_upsert:
  assumes "length (grade_rows d j) \<le> 1"
  shows "length (grade_rows (after (upsert i v d) d) j) \<le> 1"
proof (cases "j = i")
  case False
  then show ?thesis using assms by (simp add: grade_rows_upsert_other)
next
  case True
  show ?thesis
  proof (cases "sqlite_int i")
    case True
    with \<open>j = i\<close> show ?thesis using assms by (simp add: grade_rows_upsert)
  next
    case False
    then have "after (upsert i v d) d = d"
      by (cases "query_db_one (filter (\<lambda>n. n_enroll_id n = i) (nilai d))")
         (simp_all add: upsert_def after_def insert_nilai_def)
    then show ?thesis using assms by simp
  qed
qed

lemma filter_filter_le: "length (filter P (filter Q xs)) \<le> length (filter P xs)"
  by (induction xs) auto

lemma one_grade_other:
  assumes "length (grade_rows d j) \<le> 1"
    and "\<forall>i v. q \<noteq> Update_nilai v i \<and> q \<noteq> Insert_nilai i v"
  shows "length (grade_rows (after q d) j) \<le> 1"
proof -
  have del: "length (grade_rows (d\<lparr>nilai := filter Q (nilai d)\<rparr>) j) \<le> 1" for Q
    using assms(1) filter_filter_le [of "\<lambda>n. n_enroll_id n = j" Q "nilai d"]
    by (simp add: grade_rows_def del: filter_filter)
  have same: "grade_rows (d\<lparr>enroll := xs\<rparr>) j = grade_rows d j"
    "grade_rows (d\<lparr>mahasiswa := ys\<rparr>) j = grade_rows d j"
    "grade_rows (d\<lparr>users := zs\<rparr>) j = grade_rows d j"
    "grade_rows (d\<lparr>enroll := xs, enroll_seq := s\<rparr>) j = grade_rows d j" for xs ys zs s
    by (simp_all add: grade_rows_def)
  show ?thesis
  proof (cases q)
    case (Delete_nilai_of_mahasiswa m)
    then show ?thesis using del assms(1) by (simp add: after_def)
  next
    case (Delete_nilai_of_enroll i)
    then show ?thesis using del assms(1) by (simp add: after_def)
  next
    case (Update_nilai v i)
    with assms(2) show ?thesis by simp
  next
    case (Insert_nilai i v)
    with assms(2) show ?thesis by simp
  qed (insert assms(1), simp_all add: after_def same insert_enroll_def Let_def)
qed

end
